theory Spec2Isabelle
  imports Complex_Main "HOL-Library.Sublist" "HOL-Library.AList" "HOL-Library.Product_Lexorder"
    "HOL-Library.Word"
begin

section \<open>Python values\<close>

text \<open>
  The service is Python. The values that flow through the reconciler are the ones
  \<^verbatim>\<open>json.loads\<close> produces: \<^verbatim>\<open>None\<close>, \<^verbatim>\<open>bool\<close>, unbounded \<^verbatim>\<open>int\<close>, \<^verbatim>\<open>float\<close>,
  \<^verbatim>\<open>str\<close>, \<^verbatim>\<open>list\<close> and \<^verbatim>\<open>dict\<close> with string keys.

  A \<^verbatim>\<open>float\<close> is a finite number, one of the two infinities or NaN; only its order
  matters here (the code compares it with \<^verbatim>\<open>0.0\<close>, \<^verbatim>\<open>1.0\<close> and \<^verbatim>\<open>0.9\<close>), so a finite
  float is represented by its real value and rounding is not modelled.

  A \<^verbatim>\<open>str\<close> is a list of characters, one \<open>char\<close> per code point (\<^verbatim>\<open>len\<close> and slicing
  count code points); the theory's alphabet is the 256 values of \<open>char\<close>.

  A \<^verbatim>\<open>dict\<close> is an association list in insertion order; \<open>map_of\<close> reads it and
  \<open>AList.update\<close> is the assignment \<^verbatim>\<open>d[k] = v\<close> (in place when the key exists,
  appended otherwise).
\<close>

datatype pyfloat = Fin real | PInf | NInf | NaN

datatype pyval =
    PNone
  | PBool bool
  | PInt int
  | PFloat pyfloat
  | PStr string
  | PList "pyval list"
  | PDict "(string \<times> pyval) list"

datatype py_error =
    JSONDecodeError
  | ValueError
  | TypeError
  | KeyError
  | AttributeError
  | OverflowError

text \<open>Sequencing of steps that may raise: the first exception ends the block.\<close>

definition bind_err :: "py_error + 'a \<Rightarrow> ('a \<Rightarrow> py_error + 'b) \<Rightarrow> py_error + 'b" where
  "bind_err m f = (case m of Inl e \<Rightarrow> Inl e | Inr x \<Rightarrow> f x)"

subsection \<open>Float comparison, \<^verbatim>\<open>min\<close> and \<^verbatim>\<open>max\<close>\<close>

text \<open>\<^verbatim>\<open>a < b\<close> on floats; every comparison with NaN is false.\<close>

fun float_lt :: "pyfloat \<Rightarrow> pyfloat \<Rightarrow> bool" where
  "float_lt (Fin a) (Fin b) = (a < b)"
| "float_lt (Fin a) PInf = True"
| "float_lt NInf (Fin b) = True"
| "float_lt NInf PInf = True"
| "float_lt _ _ = False"

text \<open>\<^verbatim>\<open>a >= b\<close> on floats.\<close>

fun float_ge :: "pyfloat \<Rightarrow> pyfloat \<Rightarrow> bool" where
  "float_ge NaN _ = False"
| "float_ge _ NaN = False"
| "float_ge (Fin a) (Fin b) = (b \<le> a)"
| "float_ge PInf _ = True"
| "float_ge _ NInf = True"
| "float_ge _ _ = False"

text \<open>
  \<^verbatim>\<open>min(a, b)\<close> and \<^verbatim>\<open>max(a, b)\<close> of the builtins keep the first argument unless the
  second is strictly smaller (larger).
\<close>

definition py_min :: "pyfloat \<Rightarrow> pyfloat \<Rightarrow> pyfloat" where
  "py_min a b = (if float_lt b a then b else a)"

definition py_max :: "pyfloat \<Rightarrow> pyfloat \<Rightarrow> pyfloat" where
  "py_max a b = (if float_lt a b then b else a)"

subsection \<open>Truth value, membership, indexing\<close>

text \<open>\<^verbatim>\<open>bool(v)\<close>: what \<^verbatim>\<open>if v\<close> and \<^verbatim>\<open>not v\<close> test.\<close>

fun truthy :: "pyval \<Rightarrow> bool" where
  "truthy PNone = False"
| "truthy (PBool b) = b"
| "truthy (PInt i) = (i \<noteq> 0)"
| "truthy (PFloat (Fin x)) = (x \<noteq> 0)"
| "truthy (PFloat _) = True"
| "truthy (PStr s) = (s \<noteq> [])"
| "truthy (PList xs) = (xs \<noteq> [])"
| "truthy (PDict d) = (d \<noteq> [])"

text \<open>
  \<^verbatim>\<open>s.find(sub)\<close> on the whole of \<open>s\<close>: the lowest index at which \<open>sub\<close> occurs.
\<close>

fun find_at :: "string \<Rightarrow> string \<Rightarrow> nat option" where
  "find_at sub [] = (if sub = [] then Some 0 else None)"
| "find_at sub (c # cs) =
     (if prefix sub (c # cs) then Some 0 else map_option Suc (find_at sub cs))"

text \<open>\<^verbatim>\<open>sub in s\<close> for two strings.\<close>

definition str_contains :: "string \<Rightarrow> string \<Rightarrow> bool" where
  "str_contains sub s = (find_at sub s \<noteq> None)"

text \<open>
  \<^verbatim>\<open>key in data\<close> for a string \<open>key\<close>: key lookup in a dict, element equality in a
  list (a string equals only a string), substring test in a string, and
  \<^verbatim>\<open>TypeError\<close> (argument is not iterable) for every other value.
\<close>

fun py_in :: "string \<Rightarrow> pyval \<Rightarrow> py_error + bool" where
  "py_in k (PDict d) = Inr (map_of d k \<noteq> None)"
| "py_in k (PList xs) = Inr (PStr k \<in> set xs)"
| "py_in k (PStr s) = Inr (str_contains k s)"
| "py_in k _ = Inl TypeError"

text \<open>
  \<^verbatim>\<open>data[key]\<close> for a string \<open>key\<close>: \<^verbatim>\<open>KeyError\<close> on a dict without the key,
  \<^verbatim>\<open>TypeError\<close> on everything that is not a dict (list and string indices must be
  integers, the rest is not subscriptable).
\<close>

fun py_getitem :: "pyval \<Rightarrow> string \<Rightarrow> py_error + pyval" where
  "py_getitem (PDict d) k = (case map_of d k of None \<Rightarrow> Inl KeyError | Some v \<Rightarrow> Inr v)"
| "py_getitem _ k = Inl TypeError"

text \<open>\<^verbatim>\<open>data[key] = v\<close>; the model returns the updated value.\<close>

fun py_setitem :: "pyval \<Rightarrow> string \<Rightarrow> pyval \<Rightarrow> py_error + pyval" where
  "py_setitem (PDict d) k v = Inr (PDict (AList.update k v d))"
| "py_setitem _ k v = Inl TypeError"

text \<open>\<^verbatim>\<open>data.get(key, default)\<close>; only a dict has the method.\<close>

fun py_get :: "pyval \<Rightarrow> string \<Rightarrow> pyval \<Rightarrow> py_error + pyval" where
  "py_get (PDict d) k dflt = Inr (case map_of d k of None \<Rightarrow> dflt | Some v \<Rightarrow> v)"
| "py_get _ k dflt = Inl AttributeError"

text \<open>\<^verbatim>\<open>data.setdefault(key, default)\<close>, for its effect on \<open>data\<close>.\<close>

fun py_setdefault :: "pyval \<Rightarrow> string \<Rightarrow> pyval \<Rightarrow> py_error + pyval" where
  "py_setdefault (PDict d) k dflt =
     Inr (case map_of d k of None \<Rightarrow> PDict (AList.update k dflt d) | Some v \<Rightarrow> PDict d)"
| "py_setdefault _ k dflt = Inl AttributeError"

text \<open>\<^verbatim>\<open>v in xs\<close> for a list \<open>xs\<close> of strings: only an equal string is a member.\<close>

fun in_str_list :: "pyval \<Rightarrow> string list \<Rightarrow> bool" where
  "in_str_list (PStr s) xs = (s \<in> set xs)"
| "in_str_list _ xs = False"

section \<open>Configuration (\<^verbatim>\<open>app/core/config.py\<close>)\<close>

text \<open>The settings the modelled code reads, with their defaults.\<close>

record settings =
  MAX_UPLOAD_SIZE :: int
  ALLOWED_IMAGE_TYPES :: "string list"
  WASTE_CATEGORIES :: "string list"
  POINTS_CORRECT_DISPOSAL :: int
  LEVEL_THRESHOLDS :: "(int \<times> int) list"

definition default_settings :: settings where
  "default_settings = \<lparr>
     MAX_UPLOAD_SIZE = 10 * 1024 * 1024,
     ALLOWED_IMAGE_TYPES = [''image/jpeg'', ''image/png'', ''image/jpg'', ''image/webp''],
     WASTE_CATEGORIES =
       [''Recyclable Plastic'', ''Paper & Cardboard'', ''Organic/Compost'', ''Hazardous Waste'',
        ''Non-Recyclable'', ''Metal & Glass'', ''E-Waste'', ''Unknown''],
     POINTS_CORRECT_DISPOSAL = 50,
     LEVEL_THRESHOLDS =
       [(1, 0), (2, 200), (3, 500), (4, 1000), (5, 2000), (6, 5000), (7, 10000)]
   \<rparr>"

record guide =
  bin_color :: string
  instructions :: "string list"
  examples :: "string list"
  co2_saved_per_kg :: real
  decomposition_time :: string

definition WASTE_DISPOSAL_GUIDES :: "(string \<times> guide) list" where
  "WASTE_DISPOSAL_GUIDES = [
     (''Recyclable Plastic'', \<lparr>
        bin_color = ''BLUE'',
        instructions = [''Remove caps and labels if possible'', ''Rinse clean of food residue'',
          ''Flatten bottles to save space'', ''Place in blue recycling bin''],
        examples = [''Plastic bottles'', ''Food containers'', ''Plastic bags''],
        co2_saved_per_kg = 1.5,
        decomposition_time = ''450 years'' \<rparr>),
     (''Paper & Cardboard'', \<lparr>
        bin_color = ''BLUE'',
        instructions = [''Keep dry and clean'', ''Flatten cardboard boxes'',
          ''Remove any plastic tape or stickers'', ''Place in blue recycling bin''],
        examples = [''Newspapers'', ''Cardboard boxes'', ''Office paper''],
        co2_saved_per_kg = 0.9,
        decomposition_time = ''2-6 weeks'' \<rparr>),
     (''Organic/Compost'', \<lparr>
        bin_color = ''GREEN'',
        instructions = [''Remove any plastic or packaging'', ''Can mix with yard waste'',
          ''Keep in green compost bin'', ''Avoid meat and dairy (for home composting)''],
        examples = [''Food scraps'', ''Fruit peels'', ''Coffee grounds''],
        co2_saved_per_kg = 0.3,
        decomposition_time = ''2-4 weeks'' \<rparr>),
     (''Hazardous Waste'', \<lparr>
        bin_color = ''RED'',
        instructions = [''DO NOT mix with regular trash'', ''Store safely until drop-off'',
          ''Take to hazardous waste facility'', ''Follow local regulations''],
        examples = [''Batteries'', ''Paint'', ''Chemicals'', ''Fluorescent bulbs''],
        co2_saved_per_kg = 0.0,
        decomposition_time = ''Never decomposes safely'' \<rparr>),
     (''Metal & Glass'', \<lparr>
        bin_color = ''BLUE'',
        instructions = [''Rinse containers clean'', ''Remove lids and caps'',
          ''Can mix metals and glass'', ''Place in blue recycling bin''],
        examples = [''Aluminum cans'', ''Steel cans'', ''Glass bottles''],
        co2_saved_per_kg = 2.1,
        decomposition_time = ''Glass: 1M years, Metal: 50-200 years'' \<rparr>),
     (''E-Waste'', \<lparr>
        bin_color = ''SPECIAL'',
        instructions = [''Remove batteries if possible'', ''Wipe personal data from devices'',
          ''Take to e-waste collection center'', ''Check for manufacturer take-back programs''],
        examples = [''Old phones'', ''Computers'', ''Cables'', ''Appliances''],
        co2_saved_per_kg = 1.8,
        decomposition_time = ''Never decomposes, toxic materials'' \<rparr>),
     (''Non-Recyclable'', \<lparr>
        bin_color = ''BLACK/GREY'',
        instructions = [''Place in general waste bin'', ''Seal in bag if contaminated'',
          ''Consider reducing usage of these items'', ''Check if alternative disposal exists''],
        examples = [''Styrofoam'', ''Dirty plastics'', ''Mixed materials''],
        co2_saved_per_kg = 0.0,
        decomposition_time = ''Varies, often hundreds of years'' \<rparr>)
   ]"

section \<open>Point computation (\<^verbatim>\<open>GeminiService._calculate_points\<close>)\<close>

text \<open>
  \<^verbatim>\<open>x >= 0.9\<close> for a Python value \<open>x\<close>: numbers (and booleans, which are integers)
  are compared by value, everything else raises \<^verbatim>\<open>TypeError\<close>.
\<close>

fun ge_float :: "pyval \<Rightarrow> real \<Rightarrow> py_error + bool" where
  "ge_float (PInt i) r = Inr (r \<le> of_int i)"
| "ge_float (PBool b) r = Inr (r \<le> (if b then 1 else 0))"
| "ge_float (PFloat f) r = Inr (float_ge f (Fin r))"
| "ge_float _ r = Inl TypeError"

definition calculate_points :: "settings \<Rightarrow> pyval \<Rightarrow> py_error + int" where
  "calculate_points cfg waste_data =
     (let base_points = POINTS_CORRECT_DISPOSAL cfg in
      bind_err (py_get waste_data ''confidence'' (PInt 0)) (\<lambda>conf.
      bind_err (ge_float conf 0.9) (\<lambda>high.
      let base_points = (if high then base_points + 10 else base_points) in
      bind_err (py_get waste_data ''recyclable'' (PBool False)) (\<lambda>rec.
      let base_points = (if truthy rec then base_points + 20 else base_points) in
      bind_err (py_get waste_data ''category'' PNone) (\<lambda>cat.
      let base_points =
            (if in_str_list cat [''Hazardous Waste'', ''E-Waste'']
             then base_points + 30 else base_points)
      in Inr base_points)))))"

section \<open>The response reconciler (\<^verbatim>\<open>GeminiService._parse_gemini_response\<close>)\<close>

subsection \<open>Library functions\<close>

text \<open>
  Two functions of the Python standard library are parameters of the model:
  \<^verbatim>\<open>json.loads\<close> (\<open>None\<close> when it raises \<^verbatim>\<open>JSONDecodeError\<close>) and the conversion
  \<^verbatim>\<open>float(s)\<close> of a string (\<open>None\<close> when it raises \<^verbatim>\<open>ValueError\<close>).
\<close>

record stdlib =
  json_loads :: "string \<Rightarrow> pyval option"
  float_of_str :: "string \<Rightarrow> pyfloat option"

text \<open>
  \<^verbatim>\<open>float(v)\<close>: a float is itself, an integer is converted (\<^verbatim>\<open>OverflowError\<close> from
  \<open>2^1024 - 2^970\<close> on, where rounding leaves the range of a double), a boolean is an
  integer, a string is parsed, and \<^verbatim>\<open>None\<close>, lists and dicts raise \<^verbatim>\<open>TypeError\<close>.
\<close>

fun py_float :: "stdlib \<Rightarrow> pyval \<Rightarrow> py_error + pyfloat" where
  "py_float L (PFloat f) = Inr f"
| "py_float L (PInt i) =
     (if \<bar>i\<bar> \<ge> 2 ^ 1024 - 2 ^ 970 then Inl OverflowError else Inr (Fin (of_int i)))"
| "py_float L (PBool b) = Inr (Fin (if b then 1 else 0))"
| "py_float L (PStr s) =
     (case float_of_str L s of None \<Rightarrow> Inl ValueError | Some f \<Rightarrow> Inr f)"
| "py_float L _ = Inl TypeError"

subsection \<open>String operations\<close>

text \<open>
  \<^verbatim>\<open>c.isspace()\<close> on the code points below 256: tab to carriage return, the four
  separators 0x1C to 0x1F, space, 0x85 and 0xA0. \<^verbatim>\<open>s.strip()\<close> removes them at both ends.
\<close>

definition py_isspace :: "char \<Rightarrow> bool" where
  "py_isspace c =
     (let n = (of_char c :: nat)
      in (9 \<le> n \<and> n \<le> 13) \<or> (28 \<le> n \<and> n \<le> 32) \<or> n = 133 \<or> n = 160)"

definition py_strip :: "string \<Rightarrow> string" where
  "py_strip s = rev (dropWhile py_isspace (rev (dropWhile py_isspace s)))"

text \<open>
  \<^verbatim>\<open>s.find(sub, start)\<close>: the lowest index from \<open>start\<close> on at which \<open>sub\<close> occurs, or
  \<open>-1\<close>. A negative \<open>start\<close> counts from the end.
\<close>

definition py_find :: "string \<Rightarrow> string \<Rightarrow> int \<Rightarrow> int" where
  "py_find s sub start =
     (let n = int (length s);
          st = (if start < 0 then max 0 (start + n) else start)
      in if st > n then - 1
         else (case find_at sub (drop (nat st) s) of
                 None \<Rightarrow> - 1
               | Some i \<Rightarrow> st + int i))"

text \<open>
  \<^verbatim>\<open>s[a:b]\<close>: negative bounds count from the end, bounds are clipped to the string,
  and the slice is empty when it ends before it starts.
\<close>

definition py_slice :: "string \<Rightarrow> int \<Rightarrow> int \<Rightarrow> string" where
  "py_slice s a b =
     (let n = int (length s);
          lo = (if a < 0 then max 0 (a + n) else min a n);
          hi = (if b < 0 then max 0 (b + n) else min b n)
      in take (nat (hi - lo)) (drop (nat lo) s))"

subsection \<open>Fence stripping\<close>

text \<open>
  The first statement of the \<^verbatim>\<open>try\<close> block. It assigns to \<^verbatim>\<open>response_text\<close>, so the
  text it returns is also the one the \<^verbatim>\<open>except\<close> handlers see.
\<close>

definition extract_json_text :: "string \<Rightarrow> string" where
  "extract_json_text response_text =
     (if str_contains ''```json'' response_text then
        (let json_start = py_find response_text ''```json'' 0 + 7;
             json_end = py_find response_text ''```'' json_start
         in py_strip (py_slice response_text json_start json_end))
      else if str_contains ''```'' response_text then
        (let json_start = py_find response_text ''```'' 0 + 3;
             json_end = py_find response_text ''```'' json_start
         in py_strip (py_slice response_text json_start json_end))
      else response_text)"

subsection \<open>Validation, clamping and backfill\<close>

text \<open>
  The loop over \<^verbatim>\<open>required_fields\<close>: \<^verbatim>\<open>ValueError\<close> at the first field that is not
  \<^verbatim>\<open>in data\<close>.
\<close>

fun check_required :: "string list \<Rightarrow> pyval \<Rightarrow> py_error + unit" where
  "check_required [] data = Inr ()"
| "check_required (field # rest) data =
     (case py_in field data of
        Inl e \<Rightarrow> Inl e
      | Inr present \<Rightarrow> if present then check_required rest data else Inl ValueError)"

text \<open>
  \<^verbatim>\<open>category in WASTE_DISPOSAL_GUIDES\<close> followed by the lookup: the guide of a string
  key, no guide for another hashable value, \<^verbatim>\<open>TypeError\<close> for an unhashable one.
\<close>

fun guide_of :: "pyval \<Rightarrow> py_error + guide option" where
  "guide_of (PStr c) = Inr (map_of WASTE_DISPOSAL_GUIDES c)"
| "guide_of (PList xs) = Inl TypeError"
| "guide_of (PDict d) = Inl TypeError"
| "guide_of _ = Inr None"

text \<open>
  The body of \<^verbatim>\<open>if data["category"] in WASTE_DISPOSAL_GUIDES\<close>. The two
  \<^verbatim>\<open>setdefault\<close> calls mutate the nested dict in place; the model writes it back
  under its key.
\<close>

definition backfill :: "guide \<Rightarrow> pyval \<Rightarrow> py_error + pyval" where
  "backfill g data =
     bind_err (py_in ''disposal_steps'' data) (\<lambda>has_steps.
     bind_err (if \<not> has_steps then Inr True
               else bind_err (py_getitem data ''disposal_steps'') (\<lambda>v. Inr (\<not> truthy v)))
       (\<lambda>missing.
     bind_err (if missing
               then py_setitem data ''disposal_steps'' (PList (map PStr (instructions g)))
               else Inr data) (\<lambda>data.
     bind_err (py_in ''bin_color'' data) (\<lambda>has_bin.
     bind_err (if \<not> has_bin then py_setitem data ''bin_color'' (PStr (bin_color g))
               else Inr data) (\<lambda>data.
     bind_err (py_in ''environmental_impact'' data) (\<lambda>has_impact.
     bind_err (if \<not> has_impact then py_setitem data ''environmental_impact'' (PDict [])
               else Inr data) (\<lambda>data.
     bind_err (py_getitem data ''environmental_impact'') (\<lambda>impact.
     bind_err (py_setdefault impact ''co2_saved_kg'' (PFloat (Fin (co2_saved_per_kg g))))
       (\<lambda>impact.
     bind_err (py_setdefault impact ''decomposition_time'' (PStr (decomposition_time g)))
       (\<lambda>impact.
     bind_err (py_setitem data ''environmental_impact'' impact) (\<lambda>data.
     py_setitem data ''examples'' (PList (map PStr (examples g))))))))))))))"

text \<open>
  The \<^verbatim>\<open>try\<close> block after fence stripping, on the text handed to \<^verbatim>\<open>json.loads\<close>.
  \<open>Inl\<close> is the exception that leaves the block.
\<close>

definition reconcile :: "stdlib \<Rightarrow> settings \<Rightarrow> string \<Rightarrow> py_error + pyval" where
  "reconcile L cfg text =
     (case json_loads L text of
        None \<Rightarrow> Inl JSONDecodeError
      | Some data \<Rightarrow>
         bind_err (check_required [''item_name'', ''category'', ''confidence''] data) (\<lambda>_.
         bind_err (py_getitem data ''category'') (\<lambda>cat.
         bind_err (if \<not> in_str_list cat (WASTE_CATEGORIES cfg)
                   then py_setitem data ''category'' (PStr ''Unknown'')
                   else Inr data) (\<lambda>data.
         bind_err (py_get data ''confidence'' (PFloat (Fin 0.5))) (\<lambda>conf.
         bind_err (py_float L conf) (\<lambda>f.
         bind_err (py_setitem data ''confidence''
                     (PFloat (py_max (Fin 0) (py_min (Fin 1) f)))) (\<lambda>data.
         bind_err (py_getitem data ''category'') (\<lambda>cat.
         bind_err (guide_of cat) (\<lambda>entry.
           (case entry of None \<Rightarrow> Inr data | Some g \<Rightarrow> backfill g data))))))))))"

definition create_fallback_response :: "string \<Rightarrow> pyval" where
  "create_fallback_response raw_response = PDict [
     (''item_name'', PStr ''Unknown Item''),
     (''category'', PStr ''Unknown''),
     (''confidence'', PFloat (Fin 0.3)),
     (''subcategory'', PStr ''Unidentified''),
     (''recyclable'', PBool False),
     (''disposal_steps'', PList [
        PStr ''Unable to identify waste type clearly'',
        PStr ''Please retake photo with better lighting'',
        PStr ''Ensure the item is clearly visible'',
        PStr ''Consult local waste management guidelines'']),
     (''bin_color'', PStr ''GREY''),
     (''environmental_impact'', PDict [
        (''co2_saved_kg'', PFloat (Fin 0.0)),
        (''decomposition_time'', PStr ''Unknown''),
        (''recycling_potential'', PStr ''Unknown'')]),
     (''additional_tips'', PList [
        PStr ''Try taking a clearer photo'',
        PStr ''Ensure good lighting'',
        PStr ''Focus on one item at a time'']),
     (''warnings'', PList [PStr ''Could not identify waste type with high confidence'']),
     (''alternatives'', PStr ''Please try scanning again''),
     (''raw_ai_response'', PStr (py_slice raw_response 0 500))
   ]"

text \<open>
  The whole method: both \<^verbatim>\<open>except\<close> clauses return the fallback built from the current
  value of \<^verbatim>\<open>response_text\<close>, which is the stripped text.
\<close>

definition parse_gemini_response :: "stdlib \<Rightarrow> settings \<Rightarrow> string \<Rightarrow> pyval" where
  "parse_gemini_response L cfg response_text =
     (let response_text = extract_json_text response_text in
      case reconcile L cfg response_text of
        Inl e \<Rightarrow> create_fallback_response response_text
      | Inr data \<Rightarrow> data)"

text \<open>
  A library for concrete runs: \<^verbatim>\<open>json.loads\<close> and \<^verbatim>\<open>float\<close> answer the listed texts
  with the listed values, which are the ones Python gives for them, and reject every
  other text.
\<close>

definition table_stdlib :: "(string \<times> pyval) list \<Rightarrow> (string \<times> pyfloat) list \<Rightarrow> stdlib" where
  "table_stdlib js fs = \<lparr> json_loads = map_of js, float_of_str = map_of fs \<rparr>"

section \<open>HTTP errors\<close>

text \<open>
  The messages of \<^verbatim>\<open>ImageProcessor.validate_image\<close>, as values. Each stands for the
  text the code returns:
  \<^item> \<open>FileTooLarge max_mb\<close>: "File too large. Maximum size is \{max_mb:.1f\}MB", where
    \<open>max_mb\<close> is the configured maximum divided by \<open>1024 * 1024\<close>;
  \<^item> \<open>FileEmpty\<close>: "File is empty";
  \<^item> \<open>InvalidTypeAllowed types\<close>: "Invalid file type. Allowed types: ..." with the
    upper-cased subtypes of the allowed MIME types;
  \<^item> \<open>InvalidType\<close>: "Invalid file type";
  \<^item> \<open>ImageTooSmall\<close>: "Image too small (minimum 50x50 pixels)";
  \<^item> \<open>ImageTooLarge d\<close>: "Image too large (maximum \<open>d\<close>x\<open>d\<close> pixels)";
  \<^item> \<open>InvalidOrCorrupt\<close>: "Invalid or corrupted image file: ..." with the text of the
    imaging library's exception.
\<close>

datatype validation_error =
    FileTooLarge real
  | FileEmpty
  | InvalidTypeAllowed "string list"
  | InvalidType
  | ImageTooSmall
  | ImageTooLarge int
  | InvalidOrCorrupt

datatype detail = Msg string | Validation validation_error

datatype http_error = HTTPException nat detail

section \<open>Upload validation (\<^verbatim>\<open>ImageProcessor.validate_image\<close>, \<^verbatim>\<open>POST /scan\<close>)\<close>

type_synonym bytes = "8 word list"

text \<open>
  The libraries the validation calls are parameters: content sniffing
  (\<^verbatim>\<open>magic.from_buffer\<close>, \<open>None\<close> when it raises), decoding
  (\<^verbatim>\<open>Image.open\<close>, \<^verbatim>\<open>verify\<close> and \<^verbatim>\<open>size\<close>, \<open>None\<close> when one of them raises) and
  \<^verbatim>\<open>Path(filename).suffix.lower()\<close>.
\<close>

record imaging =
  magic_from_buffer :: "bytes \<Rightarrow> string option"
  image_size :: "bytes \<Rightarrow> (int \<times> int) option"
  path_suffix_lower :: "string \<Rightarrow> string"

definition max_dimension :: int where
  "max_dimension = 4096"

text \<open>The fallback of the first \<^verbatim>\<open>try\<close>: the extension check.\<close>

definition extension_check :: "imaging \<Rightarrow> string \<Rightarrow> validation_error option" where
  "extension_check ext filename =
     (if path_suffix_lower ext filename \<notin> set [''.jpg'', ''.jpeg'', ''.png'', ''.webp'']
      then Some InvalidType else None)"

text \<open>
  The first \<^verbatim>\<open>try\<close>: the sniffed MIME type against the allow-list. Building the
  message takes \<^verbatim>\<open>t.split('/')[1]\<close> of every allowed type, which raises
  \<^verbatim>\<open>IndexError\<close> for a type without a slash; like a failure of the sniffing itself
  this lands in the \<^verbatim>\<open>except\<close> clause, the extension check.
\<close>

definition mime_check ::
  "settings \<Rightarrow> imaging \<Rightarrow> bytes \<Rightarrow> string \<Rightarrow> validation_error option" where
  "mime_check cfg ext file_data filename =
     (case magic_from_buffer ext file_data of
        None \<Rightarrow> extension_check ext filename
      | Some mime \<Rightarrow>
         if mime \<notin> set (ALLOWED_IMAGE_TYPES cfg) then
           (if \<forall>t \<in> set (ALLOWED_IMAGE_TYPES cfg). CHR ''/'' \<in> set t
            then Some (InvalidTypeAllowed (ALLOWED_IMAGE_TYPES cfg))
            else extension_check ext filename)
         else None)"

definition validate_image ::
  "settings \<Rightarrow> imaging \<Rightarrow> bytes \<Rightarrow> string \<Rightarrow> bool \<times> validation_error option" where
  "validate_image cfg ext file_data filename =
     (if int (length file_data) > MAX_UPLOAD_SIZE cfg then
        (False, Some (FileTooLarge (of_int (MAX_UPLOAD_SIZE cfg) / (1024 * 1024))))
      else if length file_data = 0 then (False, Some FileEmpty)
      else
        (case mime_check cfg ext file_data filename of
           Some err \<Rightarrow> (False, Some err)
         | None \<Rightarrow>
            (case image_size ext file_data of
               None \<Rightarrow> (False, Some InvalidOrCorrupt)
             | Some (width, height) \<Rightarrow>
                if width < 50 \<or> height < 50 then (False, Some ImageTooSmall)
                else if width > max_dimension \<or> height > max_dimension
                then (False, Some (ImageTooLarge max_dimension))
                else (True, None))))"

text \<open>
  The checks of \<^verbatim>\<open>scan_waste_image\<close> before the image is processed: the declared
  content type of the upload, the empty file, then \<^verbatim>\<open>validate_uploaded_file\<close>.
\<close>

definition scan_upload_checks ::
  "settings \<Rightarrow> imaging \<Rightarrow> string option \<Rightarrow> bytes \<Rightarrow> string \<Rightarrow> http_error + unit" where
  "scan_upload_checks cfg ext content_type file_data filename =
     (if (case content_type of None \<Rightarrow> True
          | Some ct \<Rightarrow> ct = [] \<or> \<not> prefix ''image/'' ct)
      then Inl (HTTPException 400
             (Msg ''Invalid file type. Please upload an image file (JPEG, PNG, WebP)''))
      else if length file_data = 0 then Inl (HTTPException 400 (Msg ''Empty file uploaded''))
      else
        (case validate_image cfg ext file_data filename of
           (is_valid, error_message) \<Rightarrow>
             if \<not> is_valid
             then Inl (HTTPException 400
                    (case error_message of None \<Rightarrow> Msg [] | Some err \<Rightarrow> Validation err))
             else Inr ()))"

section \<open>Request model of \<^verbatim>\<open>POST /scan/base64\<close> (\<^verbatim>\<open>WasteScanRequest\<close>)\<close>

definition validate_base64 :: "string \<Rightarrow> py_error + string" where
  "validate_base64 v = (if v = [] \<or> length v < 100 then Inl ValueError else Inr v)"

text \<open>
  \<^verbatim>\<open>ImageProcessor.from_base64\<close>: the data-URL prefix up to the first comma is dropped,
  then the library decoder runs (a parameter, \<open>None\<close> when it raises); every exception
  becomes \<^verbatim>\<open>ValueError\<close>.
\<close>

definition from_base64 :: "(string \<Rightarrow> bytes option) \<Rightarrow> string \<Rightarrow> py_error + bytes" where
  "from_base64 b64decode base64_string =
     (let base64_string =
            (if CHR '','' \<in> set base64_string
             then tl (dropWhile (\<lambda>c. c \<noteq> CHR '','') base64_string)
             else base64_string)
      in case b64decode base64_string of None \<Rightarrow> Inl ValueError | Some b \<Rightarrow> Inr b)"

text \<open>
  The start of \<^verbatim>\<open>scan_waste_base64\<close>. The handler takes a \<^verbatim>\<open>WasteScanRequest\<close>, so
  the request model is built, and its validator run, before the handler body and its
  decoder: a validator failure reaches the framework as a request validation error and
  the handler is not called. The response the application builds from that error
  (\<^verbatim>\<open>validation_exception_handler\<close>) is not part of this model. The handler itself
  decodes and answers 400 when decoding fails (the detail is "Invalid base64 string: "
  followed by the text of the decoder's exception, which is left out here).
\<close>

datatype request_error = RequestValidationError py_error | Rejected http_error

definition scan_base64_decode ::
  "(string \<Rightarrow> bytes option) \<Rightarrow> string \<Rightarrow> request_error + bytes" where
  "scan_base64_decode b64decode image_base64 =
     (case validate_base64 image_base64 of
        Inl e \<Rightarrow> Inl (RequestValidationError e)
      | Inr v \<Rightarrow>
         (case from_base64 b64decode v of
            Inl e \<Rightarrow> Inl (Rejected (HTTPException 400 (Msg ''Invalid base64 string'')))
          | Inr file_data \<Rightarrow> Inr file_data))"

section \<open>Level computation of \<^verbatim>\<open>GET /stats/{user_id}\<close>\<close>

text \<open>
  The first loop of \<^verbatim>\<open>get_user_stats\<close>: over the threshold table sorted in descending
  order, the first level whose threshold is reached; 1 when no threshold is reached.
\<close>

fun first_reached :: "(int \<times> int) list \<Rightarrow> int \<Rightarrow> int option" where
  "first_reached [] total_points = None"
| "first_reached ((lvl, threshold) # rest) total_points =
     (if total_points \<ge> threshold then Some lvl else first_reached rest total_points)"

definition compute_level :: "settings \<Rightarrow> int \<Rightarrow> int" where
  "compute_level cfg total_points =
     (case first_reached (rev (sort (LEVEL_THRESHOLDS cfg))) total_points of
        None \<Rightarrow> 1 | Some lvl \<Rightarrow> lvl)"

text \<open>
  The second loop: over the levels in ascending order, the first level above \<open>level\<close>
  gives \<^verbatim>\<open>next_level_points\<close>; it stays \<^verbatim>\<open>None\<close> when there is none.
\<close>

fun first_above :: "int list \<Rightarrow> int \<Rightarrow> int option" where
  "first_above [] level = None"
| "first_above (lvl # rest) level = (if lvl > level then Some lvl else first_above rest level)"

definition next_level_points :: "settings \<Rightarrow> int \<Rightarrow> int \<Rightarrow> int option" where
  "next_level_points cfg level total_points =
     (case first_above (sort (map fst (LEVEL_THRESHOLDS cfg))) level of
        None \<Rightarrow> None
      | Some lvl \<Rightarrow> map_option (\<lambda>t. t - total_points) (map_of (LEVEL_THRESHOLDS cfg) lvl))"


text \<open>
  The route itself. The Firestore client is \<^verbatim>\<open>None\<close> when unavailable (503); a user
  document is absent (404) or carries \<^verbatim>\<open>total_points\<close>, which
  \<^verbatim>\<open>stats.get("total_points", 0)\<close> reads with default 0. The result is the pair
  (\<^verbatim>\<open>level\<close>, \<^verbatim>\<open>next_level_points\<close>) written into the returned stats.
\<close>

type_synonym user_doc = "(string \<times> int) list"

definition get_user_stats ::
  "settings \<Rightarrow> (string \<Rightarrow> user_doc option) option \<Rightarrow> string \<Rightarrow> http_error + (int \<times> int option)" where
  "get_user_stats cfg db user_id =
     (case db of
        None \<Rightarrow> Inl (HTTPException 503 (Msg ''Database service unavailable''))
      | Some users \<Rightarrow>
         (case users user_id of
            None \<Rightarrow> Inl (HTTPException 404 (Msg ''User not found''))
          | Some stats \<Rightarrow>
             let total_points = (case map_of stats ''total_points'' of None \<Rightarrow> 0 | Some p \<Rightarrow> p);
                 level = compute_level cfg total_points
             in Inr (level, next_level_points cfg level total_points)))"

section \<open>Theorems\<close>

subsection \<open>The default settings, field by field\<close>

lemma default_points: "POINTS_CORRECT_DISPOSAL default_settings = 50"
  by (simp add: default_settings_def)

lemma default_max_upload: "MAX_UPLOAD_SIZE default_settings = 10485760"
  by (simp add: default_settings_def)

lemma default_image_types:
  "ALLOWED_IMAGE_TYPES default_settings =
     [''image/jpeg'', ''image/png'', ''image/jpg'', ''image/webp'']"
  by (simp add: default_settings_def)

lemma default_categories:
  "WASTE_CATEGORIES default_settings =
     [''Recyclable Plastic'', ''Paper & Cardboard'', ''Organic/Compost'', ''Hazardous Waste'',
      ''Non-Recyclable'', ''Metal & Glass'', ''E-Waste'', ''Unknown'']"
  by (simp add: default_settings_def)

lemma default_thresholds:
  "LEVEL_THRESHOLDS default_settings =
     [(1, 0), (2, 200), (3, 500), (4, 1000), (5, 2000), (6, 5000), (7, 10000)]"
  by (simp add: default_settings_def)

subsection \<open>Sequencing\<close>

lemma bind_err_Inl [simp]: "bind_err (Inl e) f = Inl e"
  by (simp add: bind_err_def)

lemma bind_err_Inr [simp]: "bind_err (Inr x) f = f x"
  by (simp add: bind_err_def)

subsection \<open>The reconciler on dicts\<close>

lemma setdefault_chain:
  "bind_err (py_setdefault impact k1 v1) (\<lambda>impact.
     bind_err (py_setdefault impact k2 v2) K) =
   (case impact of
      PDict e \<Rightarrow>
        K (PDict (let e1 = (if map_of e k1 = None then AList.update k1 v1 e else e)
                  in if map_of e1 k2 = None then AList.update k2 v2 e1 else e1))
    | _ \<Rightarrow> Inl AttributeError)"
  by (cases impact) (auto simp: Let_def split: option.splits)

lemma steps_missing:
  "bind_err (py_in k (PDict d)) (\<lambda>has_steps.
     bind_err (if \<not> has_steps then Inr True
               else bind_err (py_getitem (PDict d) k) (\<lambda>v. Inr (\<not> truthy v))) K) =
   K (case map_of d k of None \<Rightarrow> True | Some v \<Rightarrow> \<not> truthy v)"
  by (cases "map_of d k") simp_all

lemma fill_if_absent:
  "bind_err (py_in k (PDict d)) (\<lambda>has.
     bind_err (if \<not> has then py_setitem (PDict d) k v else Inr (PDict d)) K) =
   K (PDict (if map_of d k = None then AList.update k v d else d))"
  by (cases "map_of d k") simp_all

lemma backfill_dict:
  "backfill g (PDict d) =
     (let d1 = (if (case map_of d ''disposal_steps'' of None \<Rightarrow> True | Some v \<Rightarrow> \<not> truthy v)
                then AList.update ''disposal_steps'' (PList (map PStr (instructions g))) d
                else d);
          d2 = (if map_of d1 ''bin_color'' = None
                then AList.update ''bin_color'' (PStr (bin_color g)) d1 else d1);
          d3 = (if map_of d2 ''environmental_impact'' = None
                then AList.update ''environmental_impact'' (PDict []) d2 else d2)
      in case map_of d3 ''environmental_impact'' of
           Some (PDict e) \<Rightarrow>
             Inr (PDict (AList.update ''examples'' (PList (map PStr (examples g)))
                   (AList.update ''environmental_impact''
                      (PDict (let e1 = (if map_of e ''co2_saved_kg'' = None
                                  then AList.update ''co2_saved_kg''
                                         (PFloat (Fin (co2_saved_per_kg g))) e
                                  else e)
                              in if map_of e1 ''decomposition_time'' = None
                                 then AList.update ''decomposition_time''
                                        (PStr (decomposition_time g)) e1
                                 else e1)) d3)))
         | _ \<Rightarrow> Inl AttributeError)"
proof -
  define d1 where "d1 = (if (case map_of d ''disposal_steps'' of None \<Rightarrow> True | Some v \<Rightarrow> \<not> truthy v)
                then AList.update ''disposal_steps'' (PList (map PStr (instructions g))) d
                else d)"
  define d2 where "d2 = (if map_of d1 ''bin_color'' = None
                then AList.update ''bin_color'' (PStr (bin_color g)) d1 else d1)"
  define d3 where "d3 = (if map_of d2 ''environmental_impact'' = None
                then AList.update ''environmental_impact'' (PDict []) d2 else d2)"
  have a: "(if (case map_of d ''disposal_steps'' of None \<Rightarrow> True | Some v \<Rightarrow> \<not> truthy v)
            then py_setitem (PDict d) ''disposal_steps'' (PList (map PStr (instructions g)))
            else Inr (PDict d)) = Inr (PDict d1)"
    by (simp add: d1_def)
  have "backfill g (PDict d) =
        bind_err (py_getitem (PDict d3) ''environmental_impact'') (\<lambda>impact.
        bind_err (py_setdefault impact ''co2_saved_kg'' (PFloat (Fin (co2_saved_per_kg g))))
          (\<lambda>impact.
        bind_err (py_setdefault impact ''decomposition_time'' (PStr (decomposition_time g)))
          (\<lambda>impact.
        bind_err (py_setitem (PDict d3) ''environmental_impact'' impact) (\<lambda>data.
        py_setitem data ''examples'' (PList (map PStr (examples g)))))))"
    unfolding backfill_def steps_missing a bind_err_Inr fill_if_absent d2_def [symmetric]
      d3_def [symmetric] ..
  also have "\<dots> = (case map_of d3 ''environmental_impact'' of
           Some (PDict e) \<Rightarrow>
             Inr (PDict (AList.update ''examples'' (PList (map PStr (examples g)))
                   (AList.update ''environmental_impact''
                      (PDict (let e1 = (if map_of e ''co2_saved_kg'' = None
                                  then AList.update ''co2_saved_kg''
                                         (PFloat (Fin (co2_saved_per_kg g))) e
                                  else e)
                              in if map_of e1 ''decomposition_time'' = None
                                 then AList.update ''decomposition_time''
                                        (PStr (decomposition_time g)) e1
                                 else e1)) d3)))
         | _ \<Rightarrow> Inl AttributeError)"
  proof (cases "map_of d3 ''environmental_impact''")
    case None
    then show ?thesis by (simp add: d3_def update_conv' split: if_splits)
  next
    case (Some v)
    then show ?thesis unfolding setdefault_chain by (cases v) simp_all
  qed
  finally show ?thesis by (simp only: Let_def d1_def d2_def d3_def)
qed


lemma reconcile_no_json:
  "json_loads L text = None \<Longrightarrow> reconcile L cfg text = Inl JSONDecodeError"
  by (simp add: reconcile_def)

lemma reconcile_not_dict:
  assumes "json_loads L text = Some v" and "\<forall>d. v \<noteq> PDict d"
  shows "\<exists>e. reconcile L cfg text = Inl e"
proof (cases "check_required [''item_name'', ''category'', ''confidence''] v")
  case (Inl e)
  with assms(1) show ?thesis by (simp add: reconcile_def)
next
  case (Inr u)
  moreover from assms(2) have "py_getitem v ''category'' = Inl TypeError"
    by (cases v) simp_all
  ultimately show ?thesis using assms(1) by (simp add: reconcile_def)
qed

lemma check_required_dict:
  "check_required [''item_name'', ''category'', ''confidence''] (PDict d) =
     (if map_of d ''item_name'' = None \<or> map_of d ''category'' = None
         \<or> map_of d ''confidence'' = None
      then Inl ValueError else Inr ())"
  by simp

lemma reconcile_missing_field:
  assumes "json_loads L text = Some (PDict d)"
    and "map_of d ''item_name'' = None \<or> map_of d ''category'' = None
         \<or> map_of d ''confidence'' = None"
  shows "reconcile L cfg text = Inl ValueError"
  using assms unfolding reconcile_def check_required_dict by auto

lemma reconcile_dict:
  assumes "json_loads L text = Some (PDict d)"
    and "map_of d ''item_name'' \<noteq> None"
    and "map_of d ''category'' = Some cat"
    and "map_of d ''confidence'' = Some conf"
  shows "reconcile L cfg text =
     bind_err (py_float L conf) (\<lambda>f.
       bind_err (guide_of (if in_str_list cat (WASTE_CATEGORIES cfg) then cat
                           else PStr ''Unknown'')) (\<lambda>entry.
         let d2 = AList.update ''confidence'' (PFloat (py_max (Fin 0) (py_min (Fin 1) f)))
                    (if in_str_list cat (WASTE_CATEGORIES cfg) then d
                     else AList.update ''category'' (PStr ''Unknown'') d)
         in case entry of None \<Rightarrow> Inr (PDict d2) | Some g \<Rightarrow> backfill g (PDict d2)))"
proof (cases "py_float L conf")
  case (Inl e)
  with assms show ?thesis
    unfolding reconcile_def check_required_dict by (simp add: update_conv')
next
  case (Inr f)
  with assms show ?thesis
    unfolding reconcile_def check_required_dict by (simp add: update_conv' Let_def)
qed

lemma reconcile_InrE:
  assumes "reconcile L cfg text = Inr res"
  obtains d cat conf f entry where
    "json_loads L text = Some (PDict d)"
    "map_of d ''item_name'' \<noteq> None"
    "map_of d ''category'' = Some cat"
    "map_of d ''confidence'' = Some conf"
    "py_float L conf = Inr f"
    "guide_of (if in_str_list cat (WASTE_CATEGORIES cfg) then cat else PStr ''Unknown'')
       = Inr entry"
    "(case entry of
        None \<Rightarrow> Inr (PDict (AList.update ''confidence''
                   (PFloat (py_max (Fin 0) (py_min (Fin 1) f)))
                   (if in_str_list cat (WASTE_CATEGORIES cfg) then d
                    else AList.update ''category'' (PStr ''Unknown'') d)))
      | Some g \<Rightarrow> backfill g (PDict (AList.update ''confidence''
                   (PFloat (py_max (Fin 0) (py_min (Fin 1) f)))
                   (if in_str_list cat (WASTE_CATEGORIES cfg) then d
                    else AList.update ''category'' (PStr ''Unknown'') d)))) = Inr res"
proof -
  from assms obtain v where v: "json_loads L text = Some v"
    by (cases "json_loads L text") (auto simp: reconcile_no_json)
  with assms obtain d where d: "v = PDict d"
    using reconcile_not_dict [OF v, of cfg] by auto
  from assms v d have fields: "map_of d ''item_name'' \<noteq> None" "map_of d ''category'' \<noteq> None"
      "map_of d ''confidence'' \<noteq> None"
    using reconcile_missing_field [of L "text" d cfg] by fastforce+
  then obtain cat conf where cc: "map_of d ''category'' = Some cat"
      "map_of d ''confidence'' = Some conf" by auto
  from v d have v': "json_loads L text = Some (PDict d)" by simp
  note eq = reconcile_dict [OF v' fields(1) cc, of cfg]
  from assms eq obtain f where f: "py_float L conf = Inr f"
    by (cases "py_float L conf") auto
  from assms eq f obtain entry where e:
    "guide_of (if in_str_list cat (WASTE_CATEGORIES cfg) then cat else PStr ''Unknown'')
       = Inr entry"
    by (cases "guide_of (if in_str_list cat (WASTE_CATEGORIES cfg) then cat else PStr ''Unknown'')")
       auto
  from assms eq f e have
    "(case entry of
        None \<Rightarrow> Inr (PDict (AList.update ''confidence''
                   (PFloat (py_max (Fin 0) (py_min (Fin 1) f)))
                   (if in_str_list cat (WASTE_CATEGORIES cfg) then d
                    else AList.update ''category'' (PStr ''Unknown'') d)))
      | Some g \<Rightarrow> backfill g (PDict (AList.update ''confidence''
                   (PFloat (py_max (Fin 0) (py_min (Fin 1) f)))
                   (if in_str_list cat (WASTE_CATEGORIES cfg) then d
                    else AList.update ''category'' (PStr ''Unknown'') d)))) = Inr res"
    by (simp add: Let_def)
  with v d fields(1) cc f e show thesis using that by blast
qed

lemma backfill_InrE:
  assumes "backfill g (PDict d) = Inr res"
  obtains r e e' where
    "res = PDict r"
    "map_of d ''environmental_impact'' = None \<and> e = []
       \<or> map_of d ''environmental_impact'' = Some (PDict e)"
    "map_of e' =
       (map_of e)(''co2_saved_kg'' \<mapsto>
                    (case map_of e ''co2_saved_kg'' of
                       None \<Rightarrow> PFloat (Fin (co2_saved_per_kg g)) | Some v \<Rightarrow> v),
                  ''decomposition_time'' \<mapsto>
                    (case map_of e ''decomposition_time'' of
                       None \<Rightarrow> PStr (decomposition_time g) | Some v \<Rightarrow> v))"
    "map_of r =
       (map_of d)(''disposal_steps'' \<mapsto>
                    (case map_of d ''disposal_steps'' of
                       None \<Rightarrow> PList (map PStr (instructions g))
                     | Some v \<Rightarrow> if truthy v then v else PList (map PStr (instructions g))),
                  ''bin_color'' \<mapsto>
                    (case map_of d ''bin_color'' of
                       None \<Rightarrow> PStr (bin_color g) | Some v \<Rightarrow> v),
                  ''environmental_impact'' \<mapsto> PDict e',
                  ''examples'' \<mapsto> PList (map PStr (examples g)))"
proof -
  define d1 where "d1 = (if (case map_of d ''disposal_steps'' of None \<Rightarrow> True | Some v \<Rightarrow> \<not> truthy v)
                then AList.update ''disposal_steps'' (PList (map PStr (instructions g))) d
                else d)"
  define d2 where "d2 = (if map_of d1 ''bin_color'' = None
                then AList.update ''bin_color'' (PStr (bin_color g)) d1 else d1)"
  define d3 where "d3 = (if map_of d2 ''environmental_impact'' = None
                then AList.update ''environmental_impact'' (PDict []) d2 else d2)"
  have m1: "map_of d1 = (map_of d)(''disposal_steps'' \<mapsto>
                    (case map_of d ''disposal_steps'' of
                       None \<Rightarrow> PList (map PStr (instructions g))
                     | Some v \<Rightarrow> if truthy v then v else PList (map PStr (instructions g))))"
    by (auto simp: d1_def update_conv' fun_eq_iff split: option.splits)
  have m2: "map_of d2 = (map_of d1)(''bin_color'' \<mapsto>
                    (case map_of d ''bin_color'' of
                       None \<Rightarrow> PStr (bin_color g) | Some v \<Rightarrow> v))"
    by (auto simp: d2_def m1 update_conv' fun_eq_iff split: option.splits)
  have m3: "map_of d3 ''environmental_impact'' =
              (case map_of d ''environmental_impact'' of None \<Rightarrow> Some (PDict []) | Some v \<Rightarrow> Some v)"
    by (auto simp: d3_def m2 m1 update_conv' split: option.splits)
  have m3': "(map_of d3)(''environmental_impact'' \<mapsto> x) = (map_of d2)(''environmental_impact'' \<mapsto> x)" for x
    by (auto simp: d3_def update_conv')
  from assms obtain e where e: "map_of d3 ''environmental_impact'' = Some (PDict e)"
    unfolding backfill_dict Let_def d1_def [symmetric] d2_def [symmetric] d3_def [symmetric]
    by (auto split: option.splits pyval.splits)
  define e1 where "e1 = (if map_of e ''co2_saved_kg'' = None
                                  then AList.update ''co2_saved_kg''
                                         (PFloat (Fin (co2_saved_per_kg g))) e
                                  else e)"
  define e2 where "e2 = (if map_of e1 ''decomposition_time'' = None
                                 then AList.update ''decomposition_time''
                                        (PStr (decomposition_time g)) e1
                                 else e1)"
  from assms e have res: "res = PDict (AList.update ''examples'' (PList (map PStr (examples g)))
                   (AList.update ''environmental_impact'' (PDict e2) d3))"
    unfolding backfill_dict Let_def d1_def [symmetric] d2_def [symmetric] d3_def [symmetric]
    by (auto simp: e1_def e2_def)
  have me: "map_of e2 =
       (map_of e)(''co2_saved_kg'' \<mapsto>
                    (case map_of e ''co2_saved_kg'' of
                       None \<Rightarrow> PFloat (Fin (co2_saved_per_kg g)) | Some v \<Rightarrow> v),
                  ''decomposition_time'' \<mapsto>
                    (case map_of e ''decomposition_time'' of
                       None \<Rightarrow> PStr (decomposition_time g) | Some v \<Rightarrow> v))"
    by (auto simp: e1_def e2_def update_conv' fun_eq_iff split: option.splits)
  have de: "map_of d ''environmental_impact'' = None \<and> e = []
       \<or> map_of d ''environmental_impact'' = Some (PDict e)"
    using e m3 by (auto split: option.splits)
  have mr: "map_of (AList.update ''examples'' (PList (map PStr (examples g)))
                   (AList.update ''environmental_impact'' (PDict e2) d3)) =
       (map_of d)(''disposal_steps'' \<mapsto>
                    (case map_of d ''disposal_steps'' of
                       None \<Rightarrow> PList (map PStr (instructions g))
                     | Some v \<Rightarrow> if truthy v then v else PList (map PStr (instructions g))),
                  ''bin_color'' \<mapsto>
                    (case map_of d ''bin_color'' of
                       None \<Rightarrow> PStr (bin_color g) | Some v \<Rightarrow> v),
                  ''environmental_impact'' \<mapsto> PDict e2,
                  ''examples'' \<mapsto> PList (map PStr (examples g)))"
    by (simp only: update_conv' m3' m2 m1)
  from res de me mr show thesis using that by blast
qed




lemma clamp_inside:
  "0 \<le> x \<Longrightarrow> x \<le> 1 \<Longrightarrow> py_max (Fin 0) (py_min (Fin 1) (Fin x)) = Fin x"
  by (auto simp: py_max_def py_min_def)

lemma parse_fallback:
  "reconcile L cfg (extract_json_text raw) = Inl e \<Longrightarrow>
     parse_gemini_response L cfg raw = create_fallback_response (extract_json_text raw)"
  by (simp add: parse_gemini_response_def)

lemma parse_parsed:
  "reconcile L cfg (extract_json_text raw) = Inr res \<Longrightarrow>
     parse_gemini_response L cfg raw = res"
  by (simp add: parse_gemini_response_def)

lemma fallback_category:
  "py_getitem (create_fallback_response t) ''category'' = Inr (PStr ''Unknown'')"
  by (simp add: create_fallback_response_def)


text \<open>What a successful run leaves under the keys \<open>category\<close> and \<open>confidence\<close>.\<close>

lemma reconcile_category_confidence:
  assumes "reconcile L cfg t = Inr res"
  obtains d r cat conf f where
    "json_loads L t = Some (PDict d)"
    "map_of d ''category'' = Some cat"
    "map_of d ''confidence'' = Some conf"
    "py_float L conf = Inr f"
    "res = PDict r"
    "map_of r ''category'' =
       Some (if in_str_list cat (WASTE_CATEGORIES cfg) then cat else PStr ''Unknown'')"
    "map_of r ''confidence'' = Some (PFloat (py_max (Fin 0) (py_min (Fin 1) f)))"
proof -
  from assms obtain d cat conf f entry where
    h: "json_loads L t = Some (PDict d)"
       "map_of d ''category'' = Some cat"
       "map_of d ''confidence'' = Some conf"
       "py_float L conf = Inr f"
    and run: "(case entry of
        None \<Rightarrow> Inr (PDict (AList.update ''confidence''
                   (PFloat (py_max (Fin 0) (py_min (Fin 1) f)))
                   (if in_str_list cat (WASTE_CATEGORIES cfg) then d
                    else AList.update ''category'' (PStr ''Unknown'') d)))
      | Some g \<Rightarrow> backfill g (PDict (AList.update ''confidence''
                   (PFloat (py_max (Fin 0) (py_min (Fin 1) f)))
                   (if in_str_list cat (WASTE_CATEGORIES cfg) then d
                    else AList.update ''category'' (PStr ''Unknown'') d)))) = Inr res"
    by (rule reconcile_InrE)
  define d2 where "d2 = AList.update ''confidence''
                   (PFloat (py_max (Fin 0) (py_min (Fin 1) f)))
                   (if in_str_list cat (WASTE_CATEGORIES cfg) then d
                    else AList.update ''category'' (PStr ''Unknown'') d)"
  have c2: "map_of d2 ''category'' =
       Some (if in_str_list cat (WASTE_CATEGORIES cfg) then cat else PStr ''Unknown'')"
    using h(2) by (simp add: d2_def update_conv')
  have f2: "map_of d2 ''confidence'' = Some (PFloat (py_max (Fin 0) (py_min (Fin 1) f)))"
    by (simp add: d2_def update_conv')
  show thesis
  proof (cases entry)
    case None
    with run have "res = PDict d2" by (simp add: d2_def)
    with h c2 f2 show thesis using that by blast
  next
    case (Some g)
    with run have "backfill g (PDict d2) = Inr res" by (simp add: d2_def)
    then obtain r where r: "res = PDict r" and
      "map_of r ''category'' = map_of d2 ''category''"
      "map_of r ''confidence'' = map_of d2 ''confidence''"
      by (rule backfill_InrE) simp
    with h c2 f2 show thesis using that by metis
  qed
qed

lemma guide_unknown: "map_of WASTE_DISPOSAL_GUIDES ''Unknown'' = None"
  by (simp add: WASTE_DISPOSAL_GUIDES_def)

lemma guide_keys:
  "set (map fst WASTE_DISPOSAL_GUIDES) = set (WASTE_CATEGORIES default_settings) - {''Unknown''}"
  unfolding default_categories WASTE_DISPOSAL_GUIDES_def by code_simp

lemma guide_count:
  "length WASTE_DISPOSAL_GUIDES = 7 \<and> length (WASTE_CATEGORIES default_settings) = 8
   \<and> distinct (WASTE_CATEGORIES default_settings)"
  by (simp add: WASTE_DISPOSAL_GUIDES_def default_categories)

lemma guide_metal_glass:
  "map_of WASTE_DISPOSAL_GUIDES ''Metal & Glass'' = Some \<lparr>
        bin_color = ''BLUE'',
        instructions = [''Rinse containers clean'', ''Remove lids and caps'',
          ''Can mix metals and glass'', ''Place in blue recycling bin''],
        examples = [''Aluminum cans'', ''Steel cans'', ''Glass bottles''],
        co2_saved_per_kg = 2.1,
        decomposition_time = ''Glass: 1M years, Metal: 50-200 years'' \<rparr>"
  by (simp add: WASTE_DISPOSAL_GUIDES_def)

subsection \<open>Searching for the fence marker\<close>

lemma find_at_prefix: "prefix sub s \<Longrightarrow> find_at sub s = Some 0"
  by (cases s) simp_all

lemma find_at_Some:
  "find_at sub s = Some k \<Longrightarrow>
     k \<le> length s \<and> prefix sub (drop k s) \<and> (\<forall>i<k. \<not> prefix sub (drop i s))"
proof (induction s arbitrary: k)
  case Nil
  then show ?case by (simp split: if_splits)
next
  case (Cons c cs)
  show ?case
  proof (cases "prefix sub (c # cs)")
    case True
    with Cons.prems show ?thesis by simp
  next
    case False
    with Cons.prems obtain k' where k': "find_at sub cs = Some k'" "k = Suc k'" by auto
    from Cons.IH [OF k'(1)] have
      a: "k' \<le> length cs" "prefix sub (drop k' cs)" "\<forall>i<k'. \<not> prefix sub (drop i cs)"
      by auto
    have "\<not> prefix sub (drop i (c # cs))" if "i < k" for i
    proof (cases i)
      case 0
      with False show ?thesis by simp
    next
      case (Suc i')
      with that k'(2) a(3) show ?thesis by simp
    qed
    with a k'(2) show ?thesis by simp
  qed
qed

lemma find_at_None:
  "find_at sub s = None \<Longrightarrow> k \<le> length s \<Longrightarrow> \<not> prefix sub (drop k s)"
proof (induction s arbitrary: k)
  case Nil
  then show ?case by (simp split: if_splits)
next
  case (Cons c cs)
  from Cons.prems(1) have np: "\<not> prefix sub (c # cs)" and n: "find_at sub cs = None"
    by (auto split: if_splits)
  show ?case
  proof (cases k)
    case 0
    with np show ?thesis by simp
  next
    case (Suc k')
    with Cons.IH [OF n, of k'] Cons.prems(2) show ?thesis by simp
  qed
qed

lemma find_at_NoneI:
  "(\<And>k. k \<le> length s \<Longrightarrow> \<not> prefix sub (drop k s)) \<Longrightarrow> find_at sub s = None"
proof (induction s)
  case Nil
  from Nil [of 0] show ?case by auto
next
  case (Cons c cs)
  have "\<not> prefix sub (c # cs)" using Cons.prems [of 0] by simp
  moreover have "find_at sub cs = None"
  proof (rule Cons.IH)
    fix k assume "k \<le> length cs"
    then show "\<not> prefix sub (drop k cs)" using Cons.prems [of "Suc k"] by simp
  qed
  ultimately show ?case by simp
qed

text \<open>Searching for a longer marker finds nothing where the shorter one is absent.\<close>

lemma find_at_longer_None:
  assumes "find_at sub s = None"
  shows "find_at (sub @ rest) s = None"
proof (rule find_at_NoneI)
  fix k assume "k \<le> length s"
  with assms have "\<not> prefix sub (drop k s)" by (rule find_at_None)
  then show "\<not> prefix (sub @ rest) (drop k s)"
    by (meson append_prefixD)
qed

text \<open>
  A stretch of text without the fence marker that does not end in a backquote can be
  skipped by the search.
\<close>

lemma find_fence_skip:
  assumes "find_at ''```'' m = None" and "m = [] \<or> last m \<noteq> CHR ''`''"
  shows "find_at ''```'' (m @ s) = map_option (\<lambda>i. i + length m) (find_at ''```'' s)"
  using assms
proof (induction m)
  case Nil
  then show ?case by (simp add: option.map_ident)
next
  case (Cons c cs)
  from Cons.prems(1) have np: "\<not> prefix ''```'' (c # cs)" and n: "find_at ''```'' cs = None"
    by (auto split: if_splits)
  from Cons.prems(2) have l: "last (c # cs) \<noteq> CHR ''`''" by simp
  have np': "\<not> prefix ''```'' ((c # cs) @ s)"
  proof (cases cs)
    case Nil
    with l show ?thesis by simp
  next
    case c1: (Cons c' cs')
    show ?thesis
    proof (cases cs')
      case Nil
      with l c1 show ?thesis by simp
    next
      case (Cons c'' cs'')
      with np c1 show ?thesis by simp
    qed
  qed
  have l': "cs = [] \<or> last cs \<noteq> CHR ''`''" using l by (cases cs) simp_all
  from np' have np'': "prefix ''```'' (c # cs @ s) = False" by simp
  have "find_at ''```'' ((c # cs) @ s) = map_option Suc (find_at ''```'' (cs @ s))"
    unfolding append_Cons find_at.simps np'' by (simp only: if_False)
  also have "\<dots> = map_option Suc (map_option (\<lambda>i. i + length cs) (find_at ''```'' s))"
    by (simp only: Cons.IH [OF n l'])
  also have "\<dots> = map_option (\<lambda>i. i + length (c # cs)) (find_at ''```'' s)"
    by (simp add: option.map_comp comp_def)
  finally show ?case .
qed

lemma find_fence_spaces:
  assumes "\<forall>c \<in> set ws. py_isspace c"
  shows "find_at ''```'' ws = None \<and> (ws = [] \<or> last ws \<noteq> CHR ''`'')"
proof -
  have nb: "CHR ''`'' \<notin> set ws" using assms by (auto simp: py_isspace_def)
  have "find_at ''```'' ws = None"
  proof (rule find_at_NoneI)
    fix k assume "k \<le> length ws"
    show "\<not> prefix ''```'' (drop k ws)"
    proof
      assume "prefix ''```'' (drop k ws)"
      then have "CHR ''`'' \<in> set (drop k ws)" by (auto simp: prefix_def)
      then have "CHR ''`'' \<in> set ws" by (rule in_set_dropD)
      with nb show False ..
    qed
  qed
  moreover have "ws = [] \<or> last ws \<noteq> CHR ''`''"
    using nb by (cases "ws = []") (auto dest: last_in_set)
  ultimately show ?thesis ..
qed


lemma py_find_0:
  "py_find s sub 0 = (case find_at sub s of None \<Rightarrow> - 1 | Some i \<Rightarrow> int i)"
  by (simp add: py_find_def Let_def split: option.splits)

lemma py_find_app:
  "py_find (a @ s) sub (int (length a)) =
     (case find_at sub s of None \<Rightarrow> - 1 | Some i \<Rightarrow> int (length a) + int i)"
  by (simp add: py_find_def Let_def)

lemma py_slice_mid:
  "py_slice (a @ m @ b) (int (length a)) (int (length a) + int (length m)) = m"
  by (simp add: py_slice_def Let_def)

lemma py_strip_padded:
  assumes "j \<noteq> []" and "\<not> py_isspace (hd j)" and "\<not> py_isspace (last j)"
    and "\<forall>c \<in> set ws1. py_isspace c" and "\<forall>c \<in> set ws2. py_isspace c"
  shows "py_strip (ws1 @ j @ ws2) = j"
proof -
  from assms(1,2) have a: "dropWhile py_isspace (j @ ws2) = j @ ws2" by (cases j) simp_all
  from assms(1,3) have b: "dropWhile py_isspace (rev j) = rev j"
    by (cases j rule: rev_cases) simp_all
  have "dropWhile py_isspace (ws1 @ j @ ws2) = dropWhile py_isspace (j @ ws2)"
    using assms(4) by (intro dropWhile_append2) simp
  with a have 1: "dropWhile py_isspace (ws1 @ j @ ws2) = j @ ws2" by simp
  have "dropWhile py_isspace (rev ws2 @ rev j) = dropWhile py_isspace (rev j)"
    using assms(5) by (intro dropWhile_append2) simp
  with b have 2: "dropWhile py_isspace (rev (j @ ws2)) = rev j" by simp
  show ?thesis unfolding py_strip_def 1 2 by simp
qed

text \<open>The text between the markers, for an object text padded with white space.\<close>

lemma find_closing_fence:
  assumes "find_at ''```'' j = None" and "j \<noteq> []" and "last j = CHR ''}''"
    and "\<forall>c \<in> set ws1. py_isspace c" and "\<forall>c \<in> set ws2. py_isspace c"
  shows "find_at ''```'' ((ws1 @ j @ ws2) @ ''```'') = Some (length (ws1 @ j @ ws2))"
proof -
  note s1 = find_fence_spaces [OF assms(4)]
  note s2 = find_fence_spaces [OF assms(5)]
  have lj: "j = [] \<or> last j \<noteq> CHR ''`''" using assms(3) by simp
  have "find_at ''```'' (ws1 @ (j @ (ws2 @ ''```''))) =
          map_option (\<lambda>i. i + length ws1) (find_at ''```'' (j @ (ws2 @ ''```'')))"
    using s1 by (intro find_fence_skip) simp_all
  also have "find_at ''```'' (j @ (ws2 @ ''```'')) =
          map_option (\<lambda>i. i + length j) (find_at ''```'' (ws2 @ ''```''))"
    using assms(1) lj by (rule find_fence_skip)
  also have "find_at ''```'' (ws2 @ ''```'') =
          map_option (\<lambda>i. i + length ws2) (find_at ''```'' ''```'')"
    using s2 by (intro find_fence_skip) simp_all
  also have "find_at ''```'' ''```'' = Some 0" by simp
  finally show ?thesis by simp
qed

lemma extract_unfenced:
  assumes "find_at ''```'' j = None"
  shows "extract_json_text j = j"
proof -
  from assms have "find_at (''```'' @ ''json'') j = None" by (rule find_at_longer_None)
  then have "find_at ''```json'' j = None" by simp
  with assms show ?thesis by (simp add: extract_json_text_def str_contains_def)
qed

lemma extract_json_fence:
  assumes "find_at ''```'' (m @ ''```'') = Some (length m)"
  shows "extract_json_text (''```json'' @ m @ ''```'') = py_strip m"
proof -
  let ?T = "''```json'' @ m @ ''```''"
  have c: "find_at ''```json'' ?T = Some 0" by (rule find_at_prefix) simp
  have s: "py_find ?T ''```json'' 0 + 7 = int (length ''```json'')"
    by (simp only: py_find_0 c) simp
  have e: "py_find ?T ''```'' (int (length ''```json'')) =
             int (length ''```json'') + int (length m)"
    by (simp only: py_find_app assms) simp
  have "extract_json_text ?T =
          py_strip (py_slice ?T (int (length ''```json''))
                      (int (length ''```json'') + int (length m)))"
    unfolding extract_json_text_def str_contains_def c Let_def s e by simp
  then show ?thesis by (simp only: py_slice_mid)
qed

lemma extract_plain_fence:
  assumes "find_at ''```'' (m @ ''```'') = Some (length m)"
    and "m \<noteq> []" and "hd m \<noteq> CHR ''`''" and "hd m \<noteq> CHR ''j''"
  shows "extract_json_text (''```'' @ m @ ''```'') = py_strip m"
proof -
  let ?T = "''```'' @ m @ ''```''"
  have nj: "find_at ''```json'' (m @ ''```'') = None"
  proof (rule find_at_NoneI)
    fix k assume "k \<le> length (m @ ''```'')"
    show "\<not> prefix ''```json'' (drop k (m @ ''```''))"
    proof
      assume p: "prefix ''```json'' (drop k (m @ ''```''))"
      then have "prefix (''```'' @ ''json'') (drop k (m @ ''```''))" by simp
      then have p3: "prefix ''```'' (drop k (m @ ''```''))" by (rule append_prefixD)
      from find_at_Some [OF assms(1)] have "\<forall>i<length m. \<not> prefix ''```'' (drop i (m @ ''```''))"
        by simp
      with p3 have "length m \<le> k" by (meson not_le_imp_less)
      then have "length (drop k (m @ ''```'')) \<le> 3" by simp
      moreover from p have "length ''```json'' \<le> length (drop k (m @ ''```''))"
        by (rule prefix_length_le)
      ultimately show False by simp
    qed
  qed
  from assms(2) obtain h t where m: "m = h # t" by (cases m) auto
  with assms(3,4) have h: "h \<noteq> CHR ''`''" "h \<noteq> CHR ''j''" by simp_all
  have n: "find_at ''```json'' ?T = None"
    using nj h unfolding m by simp
  have c: "find_at ''```'' ?T = Some 0" by (rule find_at_prefix) simp
  have s: "py_find ?T ''```'' 0 + 3 = int (length ''```'')"
    by (simp only: py_find_0 c) simp
  have e: "py_find ?T ''```'' (int (length ''```'')) = int (length ''```'') + int (length m)"
    by (simp only: py_find_app assms(1)) simp
  have "extract_json_text ?T =
          py_strip (py_slice ?T (int (length ''```'')) (int (length ''```'') + int (length m)))"
    unfolding extract_json_text_def str_contains_def n c Let_def s e by simp
  then show ?thesis by (simp only: py_slice_mid)
qed

lemma not_space_brace: "\<not> py_isspace CHR ''{''" "\<not> py_isspace CHR ''}''"
  by (simp_all add: py_isspace_def)

subsection \<open>The fallback\<close>

lemma fallback_raw:
  "py_getitem (create_fallback_response t) ''raw_ai_response'' = Inr (PStr (py_slice t 0 500))"
  by (simp add: create_fallback_response_def)

text \<open>
  What does hold of claim C1: a text that does not parse to an object with the three
  required fields gives the fallback, built from the text that was handed to the parser.
\<close>

lemma fallback_on_unparseable:
  assumes "\<not> (\<exists>d. json_loads L (extract_json_text raw) = Some (PDict d)
              \<and> map_of d ''item_name'' \<noteq> None \<and> map_of d ''category'' \<noteq> None
              \<and> map_of d ''confidence'' \<noteq> None)"
  shows "parse_gemini_response L cfg raw = create_fallback_response (extract_json_text raw)"
proof (cases "reconcile L cfg (extract_json_text raw)")
  case (Inl e)
  then show ?thesis by (rule parse_fallback)
next
  case (Inr res)
  then obtain d where "json_loads L (extract_json_text raw) = Some (PDict d)"
    "map_of d ''item_name'' \<noteq> None" "map_of d ''category'' \<noteq> None"
    "map_of d ''confidence'' \<noteq> None"
    by (rule reconcile_InrE) simp
  with assms show ?thesis by blast
qed

lemma fallback_shape:
  "py_getitem (create_fallback_response t) ''item_name'' = Inr (PStr ''Unknown Item'')"
  "py_getitem (create_fallback_response t) ''recyclable'' = Inr (PBool False)"
  "py_getitem (create_fallback_response t) ''bin_color'' = Inr (PStr ''GREY'')"
  "bind_err (py_getitem (create_fallback_response t) ''environmental_impact'')
     (\<lambda>impact. py_getitem impact ''co2_saved_kg'') = Inr (PFloat (Fin 0))"
  "length (py_slice t 0 500) \<le> 500"
  by (simp_all add: create_fallback_response_def py_slice_def)

subsection \<open>Runs of the \<^verbatim>\<open>try\<close> block that return\<close>

text \<open>
  The result of a run that returns with the category "Unknown": only \<open>category\<close> and
  \<open>confidence\<close> are rewritten.
\<close>

lemma unknown_on_success:
  assumes "json_loads L (extract_json_text raw) = Some (PDict d)"
    and "reconcile L default_settings (extract_json_text raw) = Inr res"
    and "py_getitem res ''category'' = Inr (PStr ''Unknown'')"
  shows "set (map fst WASTE_DISPOSAL_GUIDES)
           = set (WASTE_CATEGORIES default_settings) - {''Unknown''}
       \<and> length WASTE_DISPOSAL_GUIDES = 7
       \<and> length (WASTE_CATEGORIES default_settings) = 8
       \<and> parse_gemini_response L default_settings raw = res
       \<and> (\<exists>r conf f. res = PDict r
             \<and> map_of d ''confidence'' = Some conf \<and> py_float L conf = Inr f
             \<and> map_of r = (map_of d)(''category'' \<mapsto> PStr ''Unknown'',
                   ''confidence'' \<mapsto> PFloat (py_max (Fin 0) (py_min (Fin 1) f)))
             \<and> map_of r ''disposal_steps'' = map_of d ''disposal_steps''
             \<and> map_of r ''bin_color'' = map_of d ''bin_color''
             \<and> map_of r ''environmental_impact'' = map_of d ''environmental_impact''
             \<and> map_of r ''examples'' = map_of d ''examples'')"
proof -
  let ?cfg = default_settings
  from assms(2) obtain d' cat conf f entry where
    h: "json_loads L (extract_json_text raw) = Some (PDict d')"
       "map_of d' ''category'' = Some cat"
       "map_of d' ''confidence'' = Some conf"
       "py_float L conf = Inr f"
       "guide_of (if in_str_list cat (WASTE_CATEGORIES ?cfg) then cat else PStr ''Unknown'')
          = Inr entry"
    and run: "(case entry of
        None \<Rightarrow> Inr (PDict (AList.update ''confidence''
                   (PFloat (py_max (Fin 0) (py_min (Fin 1) f)))
                   (if in_str_list cat (WASTE_CATEGORIES ?cfg) then d'
                    else AList.update ''category'' (PStr ''Unknown'') d')))
      | Some g \<Rightarrow> backfill g (PDict (AList.update ''confidence''
                   (PFloat (py_max (Fin 0) (py_min (Fin 1) f)))
                   (if in_str_list cat (WASTE_CATEGORIES ?cfg) then d'
                    else AList.update ''category'' (PStr ''Unknown'') d')))) = Inr res"
    by (rule reconcile_InrE)
  from h(1) assms(1) have dd: "d' = d" by simp
  from assms(2) obtain r0 cat0 where
    "json_loads L (extract_json_text raw) = Some (PDict d)" "map_of d ''category'' = Some cat0"
    "res = PDict r0"
    "map_of r0 ''category'' =
       Some (if in_str_list cat0 (WASTE_CATEGORIES ?cfg) then cat0 else PStr ''Unknown'')"
    using assms(1) by (auto elim!: reconcile_category_confidence)
  with assms(3) h(2) dd have coerced:
    "(if in_str_list cat (WASTE_CATEGORIES ?cfg) then cat else PStr ''Unknown'') = PStr ''Unknown''"
    by (auto split: if_splits)
  with h(5) have "entry = None" by (simp add: guide_unknown)
  with run dd have res: "res = PDict (AList.update ''confidence''
                   (PFloat (py_max (Fin 0) (py_min (Fin 1) f)))
                   (if in_str_list cat (WASTE_CATEGORIES ?cfg) then d
                    else AList.update ''category'' (PStr ''Unknown'') d))"
    by auto
  have m: "map_of (AList.update ''confidence''
                   (PFloat (py_max (Fin 0) (py_min (Fin 1) f)))
                   (if in_str_list cat (WASTE_CATEGORIES ?cfg) then d
                    else AList.update ''category'' (PStr ''Unknown'') d))
           = (map_of d)(''category'' \<mapsto> PStr ''Unknown'',
                   ''confidence'' \<mapsto> PFloat (py_max (Fin 0) (py_min (Fin 1) f)))"
    using coerced h(2) dd by (auto simp: update_conv' fun_eq_iff split: if_splits)
  have "parse_gemini_response L default_settings raw = res"
    using assms(2) by (rule parse_parsed)
  moreover have "\<exists>r conf f. res = PDict r
             \<and> map_of d ''confidence'' = Some conf \<and> py_float L conf = Inr f
             \<and> map_of r = (map_of d)(''category'' \<mapsto> PStr ''Unknown'',
                   ''confidence'' \<mapsto> PFloat (py_max (Fin 0) (py_min (Fin 1) f)))
             \<and> map_of r ''disposal_steps'' = map_of d ''disposal_steps''
             \<and> map_of r ''bin_color'' = map_of d ''bin_color''
             \<and> map_of r ''environmental_impact'' = map_of d ''environmental_impact''
             \<and> map_of r ''examples'' = map_of d ''examples''"
    using res h(3,4) dd m by (intro exI conjI) (assumption | simp)+
  ultimately show ?thesis using guide_keys guide_count by blast
qed

text \<open>
  The result of a run that returns with a category of the disposal guide: the backfill.
\<close>

lemma backfill_on_success:
  assumes "json_loads L (extract_json_text raw) = Some (PDict d)"
    and "reconcile L default_settings (extract_json_text raw) = Inr res"
    and "py_getitem res ''category'' = Inr (PStr c)"
    and "map_of WASTE_DISPOSAL_GUIDES c = Some g"
  shows "parse_gemini_response L default_settings raw = res
       \<and> (\<exists>r e e'. res = PDict r
             \<and> map_of r ''disposal_steps'' =
                 Some (case map_of d ''disposal_steps'' of
                         None \<Rightarrow> PList (map PStr (instructions g))
                       | Some v \<Rightarrow> if truthy v then v else PList (map PStr (instructions g)))
             \<and> map_of r ''bin_color'' =
                 Some (case map_of d ''bin_color'' of
                         None \<Rightarrow> PStr (bin_color g) | Some v \<Rightarrow> v)
             \<and> (map_of d ''environmental_impact'' = None \<and> e = []
                  \<or> map_of d ''environmental_impact'' = Some (PDict e))
             \<and> map_of r ''environmental_impact'' = Some (PDict e')
             \<and> map_of e' ''co2_saved_kg'' =
                 Some (case map_of e ''co2_saved_kg'' of
                         None \<Rightarrow> PFloat (Fin (co2_saved_per_kg g)) | Some v \<Rightarrow> v)
             \<and> map_of e' ''decomposition_time'' =
                 Some (case map_of e ''decomposition_time'' of
                         None \<Rightarrow> PStr (decomposition_time g) | Some v \<Rightarrow> v)
             \<and> (\<forall>k. k \<noteq> ''co2_saved_kg'' \<and> k \<noteq> ''decomposition_time''
                    \<longrightarrow> map_of e' k = map_of e k)
             \<and> map_of r ''examples'' = Some (PList (map PStr (examples g))))"
proof -
  let ?cfg = default_settings
  from assms(2) obtain d' cat conf f entry where
    h: "json_loads L (extract_json_text raw) = Some (PDict d')"
       "map_of d' ''category'' = Some cat"
       "guide_of (if in_str_list cat (WASTE_CATEGORIES ?cfg) then cat else PStr ''Unknown'')
          = Inr entry"
    and run: "(case entry of
        None \<Rightarrow> Inr (PDict (AList.update ''confidence''
                   (PFloat (py_max (Fin 0) (py_min (Fin 1) f)))
                   (if in_str_list cat (WASTE_CATEGORIES ?cfg) then d'
                    else AList.update ''category'' (PStr ''Unknown'') d')))
      | Some g \<Rightarrow> backfill g (PDict (AList.update ''confidence''
                   (PFloat (py_max (Fin 0) (py_min (Fin 1) f)))
                   (if in_str_list cat (WASTE_CATEGORIES ?cfg) then d'
                    else AList.update ''category'' (PStr ''Unknown'') d')))) = Inr res"
    by (rule reconcile_InrE)
  from h(1) assms(1) have dd: "d' = d" by simp
  define d2 where "d2 = AList.update ''confidence''
                   (PFloat (py_max (Fin 0) (py_min (Fin 1) f)))
                   (if in_str_list cat (WASTE_CATEGORIES ?cfg) then d
                    else AList.update ''category'' (PStr ''Unknown'') d)"
  from assms(2) obtain r0 cat0 where
    "map_of d ''category'' = Some cat0"
    "res = PDict r0"
    "map_of r0 ''category'' =
       Some (if in_str_list cat0 (WASTE_CATEGORIES ?cfg) then cat0 else PStr ''Unknown'')"
    using assms(1) by (auto elim!: reconcile_category_confidence)
  with assms(3) h(2) dd have coerced:
    "(if in_str_list cat (WASTE_CATEGORIES ?cfg) then cat else PStr ''Unknown'') = PStr c"
    by (auto split: if_splits)
  with h(3) assms(4) have "entry = Some g" by simp
  with run dd have bf: "backfill g (PDict d2) = Inr res" by (auto simp: d2_def)
  have same: "map_of d2 k = map_of d k" if "k \<noteq> ''confidence''" "k \<noteq> ''category''" for k
    using that by (simp add: d2_def update_conv')
  from bf obtain r e e' where
    r: "res = PDict r"
    and e: "map_of d2 ''environmental_impact'' = None \<and> e = []
       \<or> map_of d2 ''environmental_impact'' = Some (PDict e)"
    and e': "map_of e' =
       (map_of e)(''co2_saved_kg'' \<mapsto>
                    (case map_of e ''co2_saved_kg'' of
                       None \<Rightarrow> PFloat (Fin (co2_saved_per_kg g)) | Some v \<Rightarrow> v),
                  ''decomposition_time'' \<mapsto>
                    (case map_of e ''decomposition_time'' of
                       None \<Rightarrow> PStr (decomposition_time g) | Some v \<Rightarrow> v))"
    and m: "map_of r =
       (map_of d2)(''disposal_steps'' \<mapsto>
                    (case map_of d2 ''disposal_steps'' of
                       None \<Rightarrow> PList (map PStr (instructions g))
                     | Some v \<Rightarrow> if truthy v then v else PList (map PStr (instructions g))),
                  ''bin_color'' \<mapsto>
                    (case map_of d2 ''bin_color'' of
                       None \<Rightarrow> PStr (bin_color g) | Some v \<Rightarrow> v),
                  ''environmental_impact'' \<mapsto> PDict e',
                  ''examples'' \<mapsto> PList (map PStr (examples g)))"
    by (rule backfill_InrE)
  have s1: "map_of d2 ''disposal_steps'' = map_of d ''disposal_steps''" by (rule same) simp_all
  have s2: "map_of d2 ''bin_color'' = map_of d ''bin_color''" by (rule same) simp_all
  have s3: "map_of d2 ''environmental_impact'' = map_of d ''environmental_impact''"
    by (rule same) simp_all
  have c0: "parse_gemini_response L default_settings raw = res"
    using assms(2) by (rule parse_parsed)
  have c1: "map_of r ''disposal_steps'' =
                 Some (case map_of d ''disposal_steps'' of
                         None \<Rightarrow> PList (map PStr (instructions g))
                       | Some v \<Rightarrow> if truthy v then v else PList (map PStr (instructions g)))"
    by (simp add: m s1)
  have c2: "map_of r ''bin_color'' =
                 Some (case map_of d ''bin_color'' of
                         None \<Rightarrow> PStr (bin_color g) | Some v \<Rightarrow> v)"
    by (simp add: m s2)
  have c3: "map_of d ''environmental_impact'' = None \<and> e = []
                  \<or> map_of d ''environmental_impact'' = Some (PDict e)"
    using e by (simp only: s3)
  have c4: "map_of r ''environmental_impact'' = Some (PDict e')"
    by (simp add: m)
  have c5: "map_of e' ''co2_saved_kg'' =
                 Some (case map_of e ''co2_saved_kg'' of
                         None \<Rightarrow> PFloat (Fin (co2_saved_per_kg g)) | Some v \<Rightarrow> v)"
    by (simp add: e')
  have c6: "map_of e' ''decomposition_time'' =
                 Some (case map_of e ''decomposition_time'' of
                         None \<Rightarrow> PStr (decomposition_time g) | Some v \<Rightarrow> v)"
    by (simp add: e')
  have c7: "\<forall>k. k \<noteq> ''co2_saved_kg'' \<and> k \<noteq> ''decomposition_time''
                    \<longrightarrow> map_of e' k = map_of e k"
    by (simp add: e')
  have c8: "map_of r ''examples'' = Some (PList (map PStr (examples g)))"
    by (simp add: m)
  show ?thesis
    by (intro conjI exI [of _ r] exI [of _ e] exI [of _ e'])
       (fact c0 r c1 c2 c3 c4 c5 c6 c7 c8)+
qed

lemma guide_key_is_category:
  assumes "map_of WASTE_DISPOSAL_GUIDES c = Some g"
  shows "c \<in> set (WASTE_CATEGORIES default_settings)"
proof -
  from assms have "(c, g) \<in> set WASTE_DISPOSAL_GUIDES" by (rule map_of_SomeD)
  then have "c \<in> set (map fst WASTE_DISPOSAL_GUIDES)" by force
  then show ?thesis unfolding guide_keys by simp
qed

lemma guide_paper:
  "map_of WASTE_DISPOSAL_GUIDES ''Paper & Cardboard'' = Some \<lparr>
        bin_color = ''BLUE'',
        instructions = [''Keep dry and clean'', ''Flatten cardboard boxes'',
          ''Remove any plastic tape or stickers'', ''Place in blue recycling bin''],
        examples = [''Newspapers'', ''Cardboard boxes'', ''Office paper''],
        co2_saved_per_kg = 0.9,
        decomposition_time = ''2-6 weeks'' \<rparr>"
  by (simp add: WASTE_DISPOSAL_GUIDES_def)

text \<open>
  The backfill returns when \<open>environmental_impact\<close> is absent or a dict, and raises
  \<^verbatim>\<open>AttributeError\<close> at the first \<^verbatim>\<open>setdefault\<close> when it is anything else.
\<close>

lemma backfill_returns:
  assumes "map_of d ''environmental_impact'' = None
           \<or> (\<exists>e. map_of d ''environmental_impact'' = Some (PDict e))"
  shows "\<exists>res. backfill g (PDict d) = Inr res"
  using assms unfolding backfill_dict
  by (auto simp: update_conv' Let_def)

lemma backfill_raises:
  assumes "map_of d ''environmental_impact'' = Some v" and "\<forall>e. v \<noteq> PDict e"
  shows "backfill g (PDict d) = Inl AttributeError"
  using assms unfolding backfill_dict
  by (cases v) (auto simp: update_conv' Let_def)

subsection \<open>Points\<close>

lemma calculate_points_dict:
  "calculate_points cfg (PDict d) =
     bind_err (ge_float (case map_of d ''confidence'' of None \<Rightarrow> PInt 0 | Some v \<Rightarrow> v) 0.9)
       (\<lambda>high. Inr (POINTS_CORRECT_DISPOSAL cfg + (if high then 10 else 0)
          + (if truthy (case map_of d ''recyclable'' of None \<Rightarrow> PBool False | Some v \<Rightarrow> v)
             then 20 else 0)
          + (if in_str_list (case map_of d ''category'' of None \<Rightarrow> PNone | Some v \<Rightarrow> v)
                  [''Hazardous Waste'', ''E-Waste'']
             then 30 else 0)))"
  by (cases "ge_float (case map_of d ''confidence'' of None \<Rightarrow> PInt 0 | Some v \<Rightarrow> v) 0.9")
     (simp_all add: calculate_points_def Let_def)

text \<open>
  Claim C4. With the default settings, the points of a result whose confidence is the
  float \<open>c\<close>, whose recyclable flag is the boolean \<open>r\<close> and whose category is the string
  \<open>cat\<close> are 50, plus 10 if \<open>c \<ge> 0.9\<close>, plus 20 if \<open>r\<close>, plus 30 if \<open>cat\<close> is
  "Hazardous Waste" or "E-Waste"; the bonuses add up without a cap. The points depend on
  nothing else: two results that agree on these three fields earn the same points.
\<close>

theorem calculate_points_formula:
  assumes "map_of d ''confidence'' = Some (PFloat (Fin c))"
    and "map_of d ''recyclable'' = Some (PBool r)"
    and "map_of d ''category'' = Some (PStr cat)"
  shows "calculate_points default_settings (PDict d) =
           Inr (50 + (if c \<ge> 0.9 then 10 else 0) + (if r then 20 else 0)
                   + (if cat = ''Hazardous Waste'' \<or> cat = ''E-Waste'' then 30 else 0))
         \<and> (\<forall>d'. map_of d' ''confidence'' = map_of d ''confidence''
                \<and> map_of d' ''recyclable'' = map_of d ''recyclable''
                \<and> map_of d' ''category'' = map_of d ''category''
              \<longrightarrow> calculate_points default_settings (PDict d') =
                  calculate_points default_settings (PDict d))"
  using assms by (simp add: calculate_points_dict default_points)

theorem calculate_points_formula_witness:
  "calculate_points default_settings
     (PDict [(''confidence'', PFloat (Fin 0.95)), (''recyclable'', PBool True),
             (''category'', PStr ''Hazardous Waste'')]) = Inr 110
   \<and> calculate_points default_settings
     (PDict [(''confidence'', PFloat (Fin 0.5)), (''recyclable'', PBool False),
             (''category'', PStr ''Paper & Cardboard'')]) = Inr 50"
proof -
  let ?a = "[(''confidence'', PFloat (Fin 0.95)), (''recyclable'', PBool True),
             (''category'', PStr ''Hazardous Waste'')]"
  let ?b = "[(''confidence'', PFloat (Fin 0.5)), (''recyclable'', PBool False),
             (''category'', PStr ''Paper & Cardboard'')]"
  have a1: "map_of ?a ''confidence'' = Some (PFloat (Fin 0.95))" by simp
  have a2: "map_of ?a ''recyclable'' = Some (PBool True)" by simp
  have a3: "map_of ?a ''category'' = Some (PStr ''Hazardous Waste'')" by simp
  have b1: "map_of ?b ''confidence'' = Some (PFloat (Fin 0.5))" by simp
  have b2: "map_of ?b ''recyclable'' = Some (PBool False)" by simp
  have b3: "map_of ?b ''category'' = Some (PStr ''Paper & Cardboard'')" by simp
  have a: "calculate_points default_settings (PDict ?a) = Inr 110"
    using calculate_points_formula [OF a1 a2 a3, THEN conjunct1] by simp
  have b: "calculate_points default_settings (PDict ?b) = Inr 50"
    using calculate_points_formula [OF b1 b2 b3, THEN conjunct1] by simp
  from a b show ?thesis by (rule conjI)
qed

subsection \<open>Levels\<close>

lemma sorted_thresholds_desc:
  "rev (sort (LEVEL_THRESHOLDS default_settings)) =
     [(7, 10000), (6, 5000), (5, 2000), (4, 1000), (3, 500), (2, 200), (1, 0)]"
  by (simp add: default_thresholds)

lemma sorted_levels_asc:
  "sort (map fst (LEVEL_THRESHOLDS default_settings)) = [1, 2, 3, 4, 5, 6, 7]"
  by (simp add: default_settings_def)

lemma compute_level_default:
  "compute_level default_settings tp =
     (if tp \<ge> 10000 then 7 else if tp \<ge> 5000 then 6 else if tp \<ge> 2000 then 5
      else if tp \<ge> 1000 then 4 else if tp \<ge> 500 then 3 else if tp \<ge> 200 then 2 else 1)"
  by (simp add: compute_level_def sorted_thresholds_desc)

lemma next_level_points_default:
  "next_level_points default_settings level tp =
     (if level < 1 then Some (0 - tp) else if level < 2 then Some (200 - tp)
      else if level < 3 then Some (500 - tp) else if level < 4 then Some (1000 - tp)
      else if level < 5 then Some (2000 - tp) else if level < 6 then Some (5000 - tp)
      else if level < 7 then Some (10000 - tp) else None)"
  by (simp add: next_level_points_def sorted_levels_asc default_thresholds)

text \<open>
  Claim C7. For a stored user with \<open>total_points = tp \<ge> 0\<close>, \<^verbatim>\<open>GET /stats/{user_id}\<close>
  returns as \<open>level\<close> the highest level of the default threshold table whose threshold is
  at most \<open>tp\<close>, and as \<open>next_level_points\<close> the gap from \<open>tp\<close> to the threshold of the
  next level, absent at level 7. 1999 points give level 4 and 1 point to go; 10000 points
  give level 7 and no next level.
\<close>

theorem stats_level:
  assumes "users user_id = Some stats"
    and "map_of stats ''total_points'' = Some tp"
    and "0 \<le> tp"
  shows "\<exists>level nxt.
           get_user_stats default_settings (Some users) user_id = Inr (level, nxt)
         \<and> (\<exists>t. (level, t) \<in> set (LEVEL_THRESHOLDS default_settings) \<and> t \<le> tp)
         \<and> (\<forall>(l, t) \<in> set (LEVEL_THRESHOLDS default_settings). t \<le> tp \<longrightarrow> l \<le> level)
         \<and> nxt = (if level = 7 then None
                   else map_option (\<lambda>t. t - tp)
                          (map_of (LEVEL_THRESHOLDS default_settings) (level + 1)))"
  using assms
  by (simp add: get_user_stats_def compute_level_default next_level_points_default
        default_thresholds)

theorem stats_level_witness:
  "get_user_stats default_settings
     (Some (\<lambda>u. if u = ''u1'' then Some [(''total_points'', 1999)] else None)) ''u1''
     = Inr (4, Some 1)
   \<and> get_user_stats default_settings
     (Some (\<lambda>u. if u = ''u1'' then Some [(''total_points'', 10000)] else None)) ''u1''
     = Inr (7, None)"
  using stats_level [of "\<lambda>u. if u = ''u1'' then Some [(''total_points'', 1999)] else None"
                        "''u1''" "[(''total_points'', 1999)]" 1999]
        stats_level [of "\<lambda>u. if u = ''u1'' then Some [(''total_points'', 10000)] else None"
                        "''u1''" "[(''total_points'', 10000)]" 10000]
  by (simp add: get_user_stats_def compute_level_default next_level_points_default)


subsection \<open>Category\<close>

text \<open>
  Claim C3. With the default settings, whatever the AI text and whatever the library
  returns for it, the result of the reconciler (parsed or fallback) has a \<open>category\<close>
  that is one of the eight fixed categories; and when the text parses to an object
  whose category is not one of them, the category of the result is "Unknown".
\<close>

theorem category_in_fixed_set:
  "\<exists>c. py_getitem (parse_gemini_response L default_settings raw) ''category'' = Inr (PStr c)
      \<and> c \<in> set (WASTE_CATEGORIES default_settings)
      \<and> (\<forall>d cat. json_loads L (extract_json_text raw) = Some (PDict d)
                 \<and> map_of d ''category'' = Some cat
                 \<and> \<not> in_str_list cat (WASTE_CATEGORIES default_settings)
               \<longrightarrow> c = ''Unknown'')"
proof (cases "reconcile L default_settings (extract_json_text raw)")
  case (Inl e)
  then have "py_getitem (parse_gemini_response L default_settings raw) ''category''
               = Inr (PStr ''Unknown'')"
    by (simp add: parse_fallback fallback_category)
  then show ?thesis by (simp add: default_categories)
next
  case (Inr res)
  then obtain d r cat where
    h: "json_loads L (extract_json_text raw) = Some (PDict d)"
       "map_of d ''category'' = Some cat"
       "res = PDict r"
       "map_of r ''category'' =
          Some (if in_str_list cat (WASTE_CATEGORIES default_settings) then cat
                else PStr ''Unknown'')"
    by (rule reconcile_category_confidence)
  show ?thesis
  proof (cases "in_str_list cat (WASTE_CATEGORIES default_settings)")
    case True
    then obtain s where s: "cat = PStr s" "s \<in> set (WASTE_CATEGORIES default_settings)"
      by (cases cat) simp_all
    with True h Inr show ?thesis by (simp add: parse_parsed)
  next
    case False
    with h Inr show ?thesis by (simp add: parse_parsed default_categories)
  qed
qed

theorem category_in_fixed_set_witness:
  \<open>json_loads
      (table_stdlib
         [(''{"item_name": "Cup", "category": "Plastic", "confidence": 0.8}'',
           PDict [(''item_name'', PStr ''Cup''), (''category'', PStr ''Plastic''),
                  (''confidence'', PFloat (Fin 0.8))])] [])
      (extract_json_text ''{"item_name": "Cup", "category": "Plastic", "confidence": 0.8}'')
     = Some (PDict [(''item_name'', PStr ''Cup''), (''category'', PStr ''Plastic''),
                    (''confidence'', PFloat (Fin 0.8))])
   \<and> \<not> in_str_list (PStr ''Plastic'') (WASTE_CATEGORIES default_settings)
   \<and> py_getitem
        (parse_gemini_response
           (table_stdlib
              [(''{"item_name": "Cup", "category": "Plastic", "confidence": 0.8}'',
                PDict [(''item_name'', PStr ''Cup''), (''category'', PStr ''Plastic''),
                       (''confidence'', PFloat (Fin 0.8))])] [])
           default_settings
           ''{"item_name": "Cup", "category": "Plastic", "confidence": 0.8}'')
        ''category'' = Inr (PStr ''Unknown'')\<close>
proof -
  let ?txt = \<open>''{"item_name": "Cup", "category": "Plastic", "confidence": 0.8}''\<close>
  let ?d = "[(''item_name'', PStr ''Cup''), (''category'', PStr ''Plastic''),
             (''confidence'', PFloat (Fin 0.8))]"
  let ?L = "table_stdlib [(?txt, PDict ?d)] []"
  have ex: "extract_json_text ?txt = ?txt" by code_simp
  have l: "json_loads ?L (extract_json_text ?txt) = Some (PDict ?d)"
    unfolding ex by (simp add: table_stdlib_def)
  have c: "map_of ?d ''category'' = Some (PStr ''Plastic'')" by simp
  have n: "\<not> in_str_list (PStr ''Plastic'') (WASTE_CATEGORIES default_settings)"
    by (simp add: default_categories)
  from category_in_fixed_set [of ?L ?txt] obtain c where
    g: "py_getitem (parse_gemini_response ?L default_settings ?txt) ''category'' = Inr (PStr c)"
    and imp: "\<forall>d cat. json_loads ?L (extract_json_text ?txt) = Some (PDict d)
                 \<and> map_of d ''category'' = Some cat
                 \<and> \<not> in_str_list cat (WASTE_CATEGORIES default_settings)
               \<longrightarrow> c = ''Unknown''"
    by blast
  from imp l c n have "c = ''Unknown''" by blast
  with g l n show ?thesis by simp
qed

subsection \<open>Confidence\<close>




subsection \<open>Backfill\<close>

text \<open>
  Claim C9, as stated, at a concrete input: the AI text is an object with the three
  required fields, the category "Plastic" (coerced to "Unknown"), the confidence "high"
  and a \<open>bin_color\<close> of its own. \<^verbatim>\<open>float("high")\<close> raises, and the result is the fallback:
  its \<open>bin_color\<close> is "GREY", not the "YELLOW" the AI supplied, and it has the fallback's
  own \<open>disposal_steps\<close>, where the AI supplied none.
\<close>

theorem unknown_category_fallback_counterexample:
  \<open>json_loads
      (table_stdlib
         [(''{"item_name": "Cup", "category": "Plastic", "confidence": "high", "bin_color": "YELLOW"}'',
           PDict [(''item_name'', PStr ''Cup''), (''category'', PStr ''Plastic''),
                  (''confidence'', PStr ''high''), (''bin_color'', PStr ''YELLOW'')])] [])
      (extract_json_text
         ''{"item_name": "Cup", "category": "Plastic", "confidence": "high", "bin_color": "YELLOW"}'')
     = Some (PDict [(''item_name'', PStr ''Cup''), (''category'', PStr ''Plastic''),
                    (''confidence'', PStr ''high''), (''bin_color'', PStr ''YELLOW'')])
   \<and> py_getitem
        (parse_gemini_response
           (table_stdlib
              [(''{"item_name": "Cup", "category": "Plastic", "confidence": "high", "bin_color": "YELLOW"}'',
                PDict [(''item_name'', PStr ''Cup''), (''category'', PStr ''Plastic''),
                       (''confidence'', PStr ''high''), (''bin_color'', PStr ''YELLOW'')])] [])
           default_settings
           ''{"item_name": "Cup", "category": "Plastic", "confidence": "high", "bin_color": "YELLOW"}'')
        ''category'' = Inr (PStr ''Unknown'')
   \<and> py_getitem
        (parse_gemini_response
           (table_stdlib
              [(''{"item_name": "Cup", "category": "Plastic", "confidence": "high", "bin_color": "YELLOW"}'',
                PDict [(''item_name'', PStr ''Cup''), (''category'', PStr ''Plastic''),
                       (''confidence'', PStr ''high''), (''bin_color'', PStr ''YELLOW'')])] [])
           default_settings
           ''{"item_name": "Cup", "category": "Plastic", "confidence": "high", "bin_color": "YELLOW"}'')
        ''bin_color'' = Inr (PStr ''GREY'')
   \<and> py_getitem
        (parse_gemini_response
           (table_stdlib
              [(''{"item_name": "Cup", "category": "Plastic", "confidence": "high", "bin_color": "YELLOW"}'',
                PDict [(''item_name'', PStr ''Cup''), (''category'', PStr ''Plastic''),
                       (''confidence'', PStr ''high''), (''bin_color'', PStr ''YELLOW'')])] [])
           default_settings
           ''{"item_name": "Cup", "category": "Plastic", "confidence": "high", "bin_color": "YELLOW"}'')
        ''disposal_steps''
       = Inr (PList [PStr ''Unable to identify waste type clearly'',
                     PStr ''Please retake photo with better lighting'',
                     PStr ''Ensure the item is clearly visible'',
                     PStr ''Consult local waste management guidelines''])\<close>
proof -
  let ?txt = \<open>''{"item_name": "Cup", "category": "Plastic", "confidence": "high", "bin_color": "YELLOW"}''\<close>
  let ?d = "[(''item_name'', PStr ''Cup''), (''category'', PStr ''Plastic''),
             (''confidence'', PStr ''high''), (''bin_color'', PStr ''YELLOW'')]"
  let ?L = "table_stdlib [(?txt, PDict ?d)] []"
  have ex: "extract_json_text ?txt = ?txt" by code_simp
  have l: "json_loads ?L (extract_json_text ?txt) = Some (PDict ?d)"
    unfolding ex by (simp add: table_stdlib_def)
  have f: "py_float ?L (PStr ''high'') = Inl ValueError"
    by (simp add: table_stdlib_def)
  have i: "map_of ?d ''item_name'' \<noteq> None" by simp
  have c: "map_of ?d ''category'' = Some (PStr ''Plastic'')" by simp
  have k: "map_of ?d ''confidence'' = Some (PStr ''high'')" by simp
  have r: "reconcile ?L default_settings (extract_json_text ?txt) = Inl ValueError"
    unfolding reconcile_dict [OF l i c k] f by simp
  note p = parse_fallback [OF r]
  have g1: "py_getitem (parse_gemini_response ?L default_settings ?txt) ''category''
              = Inr (PStr ''Unknown'')"
    unfolding p by (rule fallback_category)
  have g2: "py_getitem (parse_gemini_response ?L default_settings ?txt) ''bin_color''
              = Inr (PStr ''GREY'')"
    unfolding p by (rule fallback_shape)
  have g3: "py_getitem (parse_gemini_response ?L default_settings ?txt) ''disposal_steps''
       = Inr (PList [PStr ''Unable to identify waste type clearly'',
                     PStr ''Please retake photo with better lighting'',
                     PStr ''Ensure the item is clearly visible'',
                     PStr ''Consult local waste management guidelines''])"
    unfolding p by (simp add: create_fallback_response_def)
  from l g1 g2 g3 show ?thesis by (intro conjI)
qed

text \<open>
  Claim C9, amended. The disposal guide has entries for exactly the seven categories
  other than "Unknown". So for every AI response that parses to an object with the three
  required fields, whose category is "Unknown" or is coerced to it, and whose confidence
  can be coerced to a number, the result is the parsed object with only \<open>category\<close> and
  \<open>confidence\<close> rewritten: \<open>disposal_steps\<close>, \<open>bin_color\<close>, \<open>environmental_impact\<close> and
  \<open>examples\<close> are exactly as the AI supplied them, absent when it supplied none. When
  the confidence cannot be coerced, the result is the fallback.
\<close>

theorem unknown_category_no_backfill:
  assumes "json_loads L (extract_json_text raw) = Some (PDict d)"
    and "map_of d ''item_name'' \<noteq> None"
    and "map_of d ''category'' = Some cat"
    and "cat = PStr ''Unknown'' \<or> \<not> in_str_list cat (WASTE_CATEGORIES default_settings)"
    and "map_of d ''confidence'' = Some conf"
  shows "set (map fst WASTE_DISPOSAL_GUIDES)
           = set (WASTE_CATEGORIES default_settings) - {''Unknown''}
       \<and> length WASTE_DISPOSAL_GUIDES = 7
       \<and> length (WASTE_CATEGORIES default_settings) = 8
       \<and> (\<forall>f. py_float L conf = Inr f \<longrightarrow>
            (\<exists>r. parse_gemini_response L default_settings raw = PDict r
               \<and> map_of r = (map_of d)(''category'' \<mapsto> PStr ''Unknown'',
                     ''confidence'' \<mapsto> PFloat (py_max (Fin 0) (py_min (Fin 1) f)))
               \<and> map_of r ''disposal_steps'' = map_of d ''disposal_steps''
               \<and> map_of r ''bin_color'' = map_of d ''bin_color''
               \<and> map_of r ''environmental_impact'' = map_of d ''environmental_impact''
               \<and> map_of r ''examples'' = map_of d ''examples''))
       \<and> (\<forall>e. py_float L conf = Inl e \<longrightarrow>
            parse_gemini_response L default_settings raw
              = create_fallback_response (extract_json_text raw))"
proof (intro conjI allI impI)
  show "set (map fst WASTE_DISPOSAL_GUIDES)
           = set (WASTE_CATEGORIES default_settings) - {''Unknown''}"
    by (rule guide_keys)
  show "length WASTE_DISPOSAL_GUIDES = 7" using guide_count by simp
  show "length (WASTE_CATEGORIES default_settings) = 8" using guide_count by simp
next
  fix f assume f: "py_float L conf = Inr f"
  let ?c = "if in_str_list cat (WASTE_CATEGORIES default_settings) then cat else PStr ''Unknown''"
  let ?d2 = "AList.update ''confidence'' (PFloat (py_max (Fin 0) (py_min (Fin 1) f)))
               (if in_str_list cat (WASTE_CATEGORIES default_settings) then d
                else AList.update ''category'' (PStr ''Unknown'') d)"
  from assms(4) have cu: "?c = PStr ''Unknown''" by auto
  have run: "reconcile L default_settings (extract_json_text raw) = Inr (PDict ?d2)"
    unfolding reconcile_dict [OF assms(1,2,3,5)] f cu
    by (simp add: guide_unknown Let_def)
  have "map_of ?d2 ''category'' = Some ?c"
    using assms(3) by (simp add: update_conv')
  with cu have cat: "py_getitem (PDict ?d2) ''category'' = Inr (PStr ''Unknown'')"
    by simp
  note u = unknown_on_success [OF assms(1) run cat, THEN conjunct2, THEN conjunct2,
      THEN conjunct2]
  from u have p: "parse_gemini_response L default_settings raw = PDict ?d2"
    by (rule conjunct1)
  from u obtain r conf' f' where
    r: "PDict ?d2 = PDict r"
    and k': "map_of d ''confidence'' = Some conf'" and f': "py_float L conf' = Inr f'"
    and m: "map_of r = (map_of d)(''category'' \<mapsto> PStr ''Unknown'',
                     ''confidence'' \<mapsto> PFloat (py_max (Fin 0) (py_min (Fin 1) f')))"
    and rest: "map_of r ''disposal_steps'' = map_of d ''disposal_steps''"
      "map_of r ''bin_color'' = map_of d ''bin_color''"
      "map_of r ''environmental_impact'' = map_of d ''environmental_impact''"
      "map_of r ''examples'' = map_of d ''examples''"
    by (elim conjE exE)
  from k' assms(5) have "conf' = conf" by simp
  with f' f have ff: "f' = f" by simp
  from p r have p': "parse_gemini_response L default_settings raw = PDict r" by simp
  show "\<exists>r. parse_gemini_response L default_settings raw = PDict r
               \<and> map_of r = (map_of d)(''category'' \<mapsto> PStr ''Unknown'',
                     ''confidence'' \<mapsto> PFloat (py_max (Fin 0) (py_min (Fin 1) f)))
               \<and> map_of r ''disposal_steps'' = map_of d ''disposal_steps''
               \<and> map_of r ''bin_color'' = map_of d ''bin_color''
               \<and> map_of r ''environmental_impact'' = map_of d ''environmental_impact''
               \<and> map_of r ''examples'' = map_of d ''examples''"
    by (intro exI [of _ r] conjI) (fact p' m [unfolded ff] rest)+
next
  fix e assume "py_float L conf = Inl e"
  then have "reconcile L default_settings (extract_json_text raw) = Inl e"
    unfolding reconcile_dict [OF assms(1,2,3,5)] by simp
  then show "parse_gemini_response L default_settings raw
              = create_fallback_response (extract_json_text raw)"
    by (rule parse_fallback)
qed

theorem unknown_category_no_backfill_witness:
  \<open>json_loads
      (table_stdlib
         [(''{"item_name": "Cup", "category": "Plastic", "confidence": 0.8, "bin_color": "YELLOW"}'',
           PDict [(''item_name'', PStr ''Cup''), (''category'', PStr ''Plastic''),
                  (''confidence'', PFloat (Fin 0.8)), (''bin_color'', PStr ''YELLOW'')])] [])
      (extract_json_text
         ''{"item_name": "Cup", "category": "Plastic", "confidence": 0.8, "bin_color": "YELLOW"}'')
     = Some (PDict [(''item_name'', PStr ''Cup''), (''category'', PStr ''Plastic''),
                    (''confidence'', PFloat (Fin 0.8)), (''bin_color'', PStr ''YELLOW'')])
   \<and> \<not> in_str_list (PStr ''Plastic'') (WASTE_CATEGORIES default_settings)
   \<and> py_getitem
        (parse_gemini_response
           (table_stdlib
              [(''{"item_name": "Cup", "category": "Plastic", "confidence": 0.8, "bin_color": "YELLOW"}'',
                PDict [(''item_name'', PStr ''Cup''), (''category'', PStr ''Plastic''),
                       (''confidence'', PFloat (Fin 0.8)), (''bin_color'', PStr ''YELLOW'')])] [])
           default_settings
           ''{"item_name": "Cup", "category": "Plastic", "confidence": 0.8, "bin_color": "YELLOW"}'')
        ''bin_color'' = Inr (PStr ''YELLOW'')
   \<and> py_getitem
        (parse_gemini_response
           (table_stdlib
              [(''{"item_name": "Cup", "category": "Plastic", "confidence": 0.8, "bin_color": "YELLOW"}'',
                PDict [(''item_name'', PStr ''Cup''), (''category'', PStr ''Plastic''),
                       (''confidence'', PFloat (Fin 0.8)), (''bin_color'', PStr ''YELLOW'')])] [])
           default_settings
           ''{"item_name": "Cup", "category": "Plastic", "confidence": 0.8, "bin_color": "YELLOW"}'')
        ''disposal_steps'' = Inl KeyError
   \<and> py_getitem
        (parse_gemini_response
           (table_stdlib
              [(''{"item_name": "Cup", "category": "Plastic", "confidence": 0.8, "bin_color": "YELLOW"}'',
                PDict [(''item_name'', PStr ''Cup''), (''category'', PStr ''Plastic''),
                       (''confidence'', PFloat (Fin 0.8)), (''bin_color'', PStr ''YELLOW'')])] [])
           default_settings
           ''{"item_name": "Cup", "category": "Plastic", "confidence": 0.8, "bin_color": "YELLOW"}'')
        ''examples'' = Inl KeyError\<close>
proof -
  let ?txt = \<open>''{"item_name": "Cup", "category": "Plastic", "confidence": 0.8, "bin_color": "YELLOW"}''\<close>
  let ?d = "[(''item_name'', PStr ''Cup''), (''category'', PStr ''Plastic''),
             (''confidence'', PFloat (Fin 0.8)), (''bin_color'', PStr ''YELLOW'')]"
  let ?L = "table_stdlib [(?txt, PDict ?d)] []"
  have ex: "extract_json_text ?txt = ?txt" by code_simp
  have l: "json_loads ?L (extract_json_text ?txt) = Some (PDict ?d)"
    unfolding ex by (simp add: table_stdlib_def)
  have i: "map_of ?d ''item_name'' \<noteq> None" by simp
  have c: "map_of ?d ''category'' = Some (PStr ''Plastic'')" by simp
  have k: "map_of ?d ''confidence'' = Some (PFloat (Fin 0.8))" by simp
  have n: "\<not> in_str_list (PStr ''Plastic'') (WASTE_CATEGORIES default_settings)"
    by (simp add: default_categories)
  then have u: "PStr ''Plastic'' = PStr ''Unknown''
              \<or> \<not> in_str_list (PStr ''Plastic'') (WASTE_CATEGORIES default_settings)" ..
  have f: "py_float ?L (PFloat (Fin 0.8)) = Inr (Fin 0.8)" by simp
  note t = unknown_category_no_backfill [OF l i c u k, THEN conjunct2, THEN conjunct2,
      THEN conjunct2, THEN conjunct1, THEN spec, THEN mp, OF f]
  from t obtain r where
    p: "parse_gemini_response ?L default_settings ?txt = PDict r"
    and s: "map_of r ''disposal_steps'' = map_of ?d ''disposal_steps''"
    and b: "map_of r ''bin_color'' = map_of ?d ''bin_color''"
    and x: "map_of r ''examples'' = map_of ?d ''examples''"
    by (elim conjE exE)
  have g1: "py_getitem (parse_gemini_response ?L default_settings ?txt) ''bin_color''
              = Inr (PStr ''YELLOW'')"
    unfolding p py_getitem.simps b by simp
  have g2: "py_getitem (parse_gemini_response ?L default_settings ?txt) ''disposal_steps''
              = Inl KeyError"
    unfolding p py_getitem.simps s by simp
  have g3: "py_getitem (parse_gemini_response ?L default_settings ?txt) ''examples''
              = Inl KeyError"
    unfolding p py_getitem.simps x by simp
  from l n g1 g2 g3 show ?thesis by (intro conjI)
qed

text \<open>
  Claim C5, as stated, at a concrete input: the AI text is an object with the three
  required fields, a category of the disposal guide, \<open>disposal_steps\<close> of its own and
  \<^verbatim>\<open>"environmental_impact": null\<close>. \<^verbatim>\<open>None\<close> has no \<^verbatim>\<open>setdefault\<close>, the
  \<^verbatim>\<open>AttributeError\<close> is caught, and the result is the fallback: no \<open>examples\<close> are
  attached and the \<open>disposal_steps\<close> are the fallback's, not the AI's.
\<close>

theorem backfill_fallback_counterexample:
  \<open>json_loads
      (table_stdlib
         [(''{"item_name": "Box", "category": "Paper & Cardboard", "confidence": 0.2, "disposal_steps": ["Mine"], "environmental_impact": null}'',
           PDict [(''item_name'', PStr ''Box''), (''category'', PStr ''Paper & Cardboard''),
                  (''confidence'', PFloat (Fin 0.2)),
                  (''disposal_steps'', PList [PStr ''Mine'']),
                  (''environmental_impact'', PNone)])] [])
      (extract_json_text
         ''{"item_name": "Box", "category": "Paper & Cardboard", "confidence": 0.2, "disposal_steps": ["Mine"], "environmental_impact": null}'')
     = Some (PDict [(''item_name'', PStr ''Box''), (''category'', PStr ''Paper & Cardboard''),
                  (''confidence'', PFloat (Fin 0.2)),
                  (''disposal_steps'', PList [PStr ''Mine'']),
                  (''environmental_impact'', PNone)])
   \<and> map_of WASTE_DISPOSAL_GUIDES ''Paper & Cardboard'' \<noteq> None
   \<and> parse_gemini_response
        (table_stdlib
           [(''{"item_name": "Box", "category": "Paper & Cardboard", "confidence": 0.2, "disposal_steps": ["Mine"], "environmental_impact": null}'',
             PDict [(''item_name'', PStr ''Box''), (''category'', PStr ''Paper & Cardboard''),
                    (''confidence'', PFloat (Fin 0.2)),
                    (''disposal_steps'', PList [PStr ''Mine'']),
                    (''environmental_impact'', PNone)])] [])
        default_settings
        ''{"item_name": "Box", "category": "Paper & Cardboard", "confidence": 0.2, "disposal_steps": ["Mine"], "environmental_impact": null}''
     = create_fallback_response
         ''{"item_name": "Box", "category": "Paper & Cardboard", "confidence": 0.2, "disposal_steps": ["Mine"], "environmental_impact": null}''
   \<and> py_getitem
        (create_fallback_response
           ''{"item_name": "Box", "category": "Paper & Cardboard", "confidence": 0.2, "disposal_steps": ["Mine"], "environmental_impact": null}'')
        ''examples'' = Inl KeyError
   \<and> py_getitem
        (create_fallback_response
           ''{"item_name": "Box", "category": "Paper & Cardboard", "confidence": 0.2, "disposal_steps": ["Mine"], "environmental_impact": null}'')
        ''disposal_steps'' \<noteq> Inr (PList [PStr ''Mine''])\<close>
proof -
  let ?txt = \<open>''{"item_name": "Box", "category": "Paper & Cardboard", "confidence": 0.2, "disposal_steps": ["Mine"], "environmental_impact": null}''\<close>
  let ?d = "[(''item_name'', PStr ''Box''), (''category'', PStr ''Paper & Cardboard''),
             (''confidence'', PFloat (Fin 0.2)),
             (''disposal_steps'', PList [PStr ''Mine'']),
             (''environmental_impact'', PNone)]"
  let ?L = "table_stdlib [(?txt, PDict ?d)] []"
  have ex: "extract_json_text ?txt = ?txt" by code_simp
  have l: "json_loads ?L (extract_json_text ?txt) = Some (PDict ?d)"
    unfolding ex by (simp add: table_stdlib_def)
  have i: "map_of ?d ''item_name'' \<noteq> None" by simp
  have c: "map_of ?d ''category'' = Some (PStr ''Paper & Cardboard'')" by simp
  have k: "map_of ?d ''confidence'' = Some (PFloat (Fin 0.2))" by simp
  have gp: "map_of WASTE_DISPOSAL_GUIDES ''Paper & Cardboard'' \<noteq> None"
    by (simp add: guide_paper)
  have r: "reconcile ?L default_settings (extract_json_text ?txt) = Inl AttributeError"
    unfolding reconcile_dict [OF l i c k]
    by (simp add: default_categories guide_paper clamp_inside backfill_dict)
  have p: "parse_gemini_response ?L default_settings ?txt = create_fallback_response ?txt"
    using parse_fallback [OF r] unfolding ex .
  have g1: "py_getitem (create_fallback_response ?txt) ''examples'' = Inl KeyError"
    by (simp add: create_fallback_response_def)
  have g2: "py_getitem (create_fallback_response ?txt) ''disposal_steps''
              \<noteq> Inr (PList [PStr ''Mine''])"
    by (simp add: create_fallback_response_def)
  from l gp p g1 g2 show ?thesis by (intro conjI)
qed

text \<open>
  Claim C5, amended. For every AI response that parses to an object with the three
  required fields, whose category has an entry \<open>g\<close> in the disposal guide and whose
  confidence can be coerced to a number: when \<open>environmental_impact\<close> is absent or an
  object, the reconciler returns the object with only what is missing filled in.
  \<open>disposal_steps\<close> is the guide's instructions only if the AI supplied none or an empty
  one (empty in Python's sense, \<^verbatim>\<open>not v\<close>: the empty list, and likewise \<^verbatim>\<open>None\<close>, an
  empty string or dict, \<^verbatim>\<open>False\<close> and zero), \<open>bin_color\<close> is the guide's only if absent,
  and inside \<open>environmental_impact\<close> (an empty dict when the AI supplied none)
  \<open>co2_saved_kg\<close> and \<open>decomposition_time\<close> are the guide's only if absent, every other
  key of it being kept. A value the AI supplied is never replaced by the guide's. The
  guide's examples are attached under \<open>examples\<close>. When \<open>environmental_impact\<close> is
  present and not an object, the result is the fallback.
\<close>

theorem backfill_only_missing:
  assumes "json_loads L (extract_json_text raw) = Some (PDict d)"
    and "map_of d ''item_name'' \<noteq> None"
    and "map_of d ''category'' = Some (PStr c)"
    and "map_of WASTE_DISPOSAL_GUIDES c = Some g"
    and "map_of d ''confidence'' = Some conf"
    and "py_float L conf = Inr f"
  shows "((map_of d ''environmental_impact'' = None \<and> e = []
           \<or> map_of d ''environmental_impact'' = Some (PDict e)) \<longrightarrow>
          (\<exists>r e'. parse_gemini_response L default_settings raw = PDict r
             \<and> map_of r ''category'' = Some (PStr c)
             \<and> map_of r ''disposal_steps'' =
                 Some (case map_of d ''disposal_steps'' of
                         None \<Rightarrow> PList (map PStr (instructions g))
                       | Some v \<Rightarrow> if truthy v then v else PList (map PStr (instructions g)))
             \<and> map_of r ''bin_color'' =
                 Some (case map_of d ''bin_color'' of
                         None \<Rightarrow> PStr (bin_color g) | Some v \<Rightarrow> v)
             \<and> map_of r ''environmental_impact'' = Some (PDict e')
             \<and> map_of e' ''co2_saved_kg'' =
                 Some (case map_of e ''co2_saved_kg'' of
                         None \<Rightarrow> PFloat (Fin (co2_saved_per_kg g)) | Some v \<Rightarrow> v)
             \<and> map_of e' ''decomposition_time'' =
                 Some (case map_of e ''decomposition_time'' of
                         None \<Rightarrow> PStr (decomposition_time g) | Some v \<Rightarrow> v)
             \<and> (\<forall>k. k \<noteq> ''co2_saved_kg'' \<and> k \<noteq> ''decomposition_time''
                    \<longrightarrow> map_of e' k = map_of e k)
             \<and> map_of r ''examples'' = Some (PList (map PStr (examples g)))))
       \<and> (\<forall>v. map_of d ''environmental_impact'' = Some v \<and> (\<forall>e0. v \<noteq> PDict e0) \<longrightarrow>
            parse_gemini_response L default_settings raw
              = create_fallback_response (extract_json_text raw))"
proof (intro conjI allI impI)
  let ?cfg = default_settings
  let ?d2 = "AList.update ''confidence'' (PFloat (py_max (Fin 0) (py_min (Fin 1) f))) d"
  from assms(4) have cin: "in_str_list (PStr c) (WASTE_CATEGORIES ?cfg)"
    by (simp add: guide_key_is_category)
  have eq: "reconcile L ?cfg (extract_json_text raw) = backfill g (PDict ?d2)"
    unfolding reconcile_dict [OF assms(1,2,3,5)] assms(6)
    using cin assms(4) by (simp add: Let_def)
  have ei: "map_of ?d2 ''environmental_impact'' = map_of d ''environmental_impact''"
    by (simp add: update_conv')
  {
    assume a: "map_of d ''environmental_impact'' = None \<and> e = []
           \<or> map_of d ''environmental_impact'' = Some (PDict e)"
    then have "map_of ?d2 ''environmental_impact'' = None
           \<or> (\<exists>e. map_of ?d2 ''environmental_impact'' = Some (PDict e))"
      unfolding ei by blast
    then obtain res where "backfill g (PDict ?d2) = Inr res"
      using backfill_returns by blast
    with eq have run: "reconcile L ?cfg (extract_json_text raw) = Inr res" by simp
    from run obtain d' r0 cat0 where
      "json_loads L (extract_json_text raw) = Some (PDict d')"
      "map_of d' ''category'' = Some cat0"
      "res = PDict r0"
      "map_of r0 ''category'' =
         Some (if in_str_list cat0 (WASTE_CATEGORIES ?cfg) then cat0 else PStr ''Unknown'')"
      by (rule reconcile_category_confidence)
    with assms(1,3) cin have r0: "res = PDict r0" "map_of r0 ''category'' = Some (PStr c)"
      by auto
    then have cat: "py_getitem res ''category'' = Inr (PStr c)" by simp
    note b = backfill_on_success [OF assms(1) run cat assms(4)]
    from b have p: "parse_gemini_response L default_settings raw = res" by (rule conjunct1)
    from b [THEN conjunct2] obtain r e0 e' where
      r: "res = PDict r"
      and c1: "map_of r ''disposal_steps'' =
                 Some (case map_of d ''disposal_steps'' of
                         None \<Rightarrow> PList (map PStr (instructions g))
                       | Some v \<Rightarrow> if truthy v then v else PList (map PStr (instructions g)))"
      and c2: "map_of r ''bin_color'' =
                 Some (case map_of d ''bin_color'' of
                         None \<Rightarrow> PStr (bin_color g) | Some v \<Rightarrow> v)"
      and c3: "map_of d ''environmental_impact'' = None \<and> e0 = []
                  \<or> map_of d ''environmental_impact'' = Some (PDict e0)"
      and c4: "map_of r ''environmental_impact'' = Some (PDict e')"
      and c5: "map_of e' ''co2_saved_kg'' =
                 Some (case map_of e0 ''co2_saved_kg'' of
                         None \<Rightarrow> PFloat (Fin (co2_saved_per_kg g)) | Some v \<Rightarrow> v)"
      and c6: "map_of e' ''decomposition_time'' =
                 Some (case map_of e0 ''decomposition_time'' of
                         None \<Rightarrow> PStr (decomposition_time g) | Some v \<Rightarrow> v)"
      and c7: "\<forall>k. k \<noteq> ''co2_saved_kg'' \<and> k \<noteq> ''decomposition_time''
                    \<longrightarrow> map_of e' k = map_of e0 k"
      and c8: "map_of r ''examples'' = Some (PList (map PStr (examples g)))"
      by (elim conjE exE)
    from a c3 have ee: "e0 = e" by auto
    from p r have p': "parse_gemini_response L default_settings raw = PDict r" by simp
    from r r0 have cr: "map_of r ''category'' = Some (PStr c)" by simp
    have "\<exists>r e'. parse_gemini_response L default_settings raw = PDict r
             \<and> map_of r ''category'' = Some (PStr c)
             \<and> map_of r ''disposal_steps'' =
                 Some (case map_of d ''disposal_steps'' of
                         None \<Rightarrow> PList (map PStr (instructions g))
                       | Some v \<Rightarrow> if truthy v then v else PList (map PStr (instructions g)))
             \<and> map_of r ''bin_color'' =
                 Some (case map_of d ''bin_color'' of
                         None \<Rightarrow> PStr (bin_color g) | Some v \<Rightarrow> v)
             \<and> map_of r ''environmental_impact'' = Some (PDict e')
             \<and> map_of e' ''co2_saved_kg'' =
                 Some (case map_of e ''co2_saved_kg'' of
                         None \<Rightarrow> PFloat (Fin (co2_saved_per_kg g)) | Some v \<Rightarrow> v)
             \<and> map_of e' ''decomposition_time'' =
                 Some (case map_of e ''decomposition_time'' of
                         None \<Rightarrow> PStr (decomposition_time g) | Some v \<Rightarrow> v)
             \<and> (\<forall>k. k \<noteq> ''co2_saved_kg'' \<and> k \<noteq> ''decomposition_time''
                    \<longrightarrow> map_of e' k = map_of e k)
             \<and> map_of r ''examples'' = Some (PList (map PStr (examples g)))"
      by (intro exI [of _ r] exI [of _ e'] conjI)
         (fact p' cr c1 c2 c4 c5 [unfolded ee] c6 [unfolded ee] c7 [unfolded ee] c8)+
  }
  then show "map_of d ''environmental_impact'' = None \<and> e = []
           \<or> map_of d ''environmental_impact'' = Some (PDict e) \<Longrightarrow>
          \<exists>r e'. parse_gemini_response L default_settings raw = PDict r
             \<and> map_of r ''category'' = Some (PStr c)
             \<and> map_of r ''disposal_steps'' =
                 Some (case map_of d ''disposal_steps'' of
                         None \<Rightarrow> PList (map PStr (instructions g))
                       | Some v \<Rightarrow> if truthy v then v else PList (map PStr (instructions g)))
             \<and> map_of r ''bin_color'' =
                 Some (case map_of d ''bin_color'' of
                         None \<Rightarrow> PStr (bin_color g) | Some v \<Rightarrow> v)
             \<and> map_of r ''environmental_impact'' = Some (PDict e')
             \<and> map_of e' ''co2_saved_kg'' =
                 Some (case map_of e ''co2_saved_kg'' of
                         None \<Rightarrow> PFloat (Fin (co2_saved_per_kg g)) | Some v \<Rightarrow> v)
             \<and> map_of e' ''decomposition_time'' =
                 Some (case map_of e ''decomposition_time'' of
                         None \<Rightarrow> PStr (decomposition_time g) | Some v \<Rightarrow> v)
             \<and> (\<forall>k. k \<noteq> ''co2_saved_kg'' \<and> k \<noteq> ''decomposition_time''
                    \<longrightarrow> map_of e' k = map_of e k)
             \<and> map_of r ''examples'' = Some (PList (map PStr (examples g)))" .
  fix v assume b: "map_of d ''environmental_impact'' = Some v \<and> (\<forall>e0. v \<noteq> PDict e0)"
  then have "map_of ?d2 ''environmental_impact'' = Some v" "\<forall>e0. v \<noteq> PDict e0"
    unfolding ei by simp_all
  then have "backfill g (PDict ?d2) = Inl AttributeError" by (rule backfill_raises)
  with eq have "reconcile L ?cfg (extract_json_text raw) = Inl AttributeError" by simp
  then show "parse_gemini_response L default_settings raw
              = create_fallback_response (extract_json_text raw)"
    by (rule parse_fallback)
qed

theorem backfill_only_missing_witness:
  \<open>json_loads
      (table_stdlib
         [(''{"item_name": "Can", "category": "Metal & Glass", "confidence": 0.95, "disposal_steps": ["Rinse it"], "environmental_impact": {"co2_saved_kg": 9.9}}'',
           PDict [(''item_name'', PStr ''Can''), (''category'', PStr ''Metal & Glass''),
                  (''confidence'', PFloat (Fin 0.95)),
                  (''disposal_steps'', PList [PStr ''Rinse it'']),
                  (''environmental_impact'', PDict [(''co2_saved_kg'', PFloat (Fin 9.9))])])] [])
      (extract_json_text
         ''{"item_name": "Can", "category": "Metal & Glass", "confidence": 0.95, "disposal_steps": ["Rinse it"], "environmental_impact": {"co2_saved_kg": 9.9}}'')
     = Some (PDict [(''item_name'', PStr ''Can''), (''category'', PStr ''Metal & Glass''),
                  (''confidence'', PFloat (Fin 0.95)),
                  (''disposal_steps'', PList [PStr ''Rinse it'']),
                  (''environmental_impact'', PDict [(''co2_saved_kg'', PFloat (Fin 9.9))])])
   \<and> py_getitem
        (parse_gemini_response
           (table_stdlib
              [(''{"item_name": "Can", "category": "Metal & Glass", "confidence": 0.95, "disposal_steps": ["Rinse it"], "environmental_impact": {"co2_saved_kg": 9.9}}'',
                PDict [(''item_name'', PStr ''Can''), (''category'', PStr ''Metal & Glass''),
                       (''confidence'', PFloat (Fin 0.95)),
                       (''disposal_steps'', PList [PStr ''Rinse it'']),
                       (''environmental_impact'', PDict [(''co2_saved_kg'', PFloat (Fin 9.9))])])] [])
           default_settings
           ''{"item_name": "Can", "category": "Metal & Glass", "confidence": 0.95, "disposal_steps": ["Rinse it"], "environmental_impact": {"co2_saved_kg": 9.9}}'')
        ''disposal_steps'' = Inr (PList [PStr ''Rinse it''])
   \<and> py_getitem
        (parse_gemini_response
           (table_stdlib
              [(''{"item_name": "Can", "category": "Metal & Glass", "confidence": 0.95, "disposal_steps": ["Rinse it"], "environmental_impact": {"co2_saved_kg": 9.9}}'',
                PDict [(''item_name'', PStr ''Can''), (''category'', PStr ''Metal & Glass''),
                       (''confidence'', PFloat (Fin 0.95)),
                       (''disposal_steps'', PList [PStr ''Rinse it'']),
                       (''environmental_impact'', PDict [(''co2_saved_kg'', PFloat (Fin 9.9))])])] [])
           default_settings
           ''{"item_name": "Can", "category": "Metal & Glass", "confidence": 0.95, "disposal_steps": ["Rinse it"], "environmental_impact": {"co2_saved_kg": 9.9}}'')
        ''bin_color'' = Inr (PStr ''BLUE'')
   \<and> py_getitem
        (parse_gemini_response
           (table_stdlib
              [(''{"item_name": "Can", "category": "Metal & Glass", "confidence": 0.95, "disposal_steps": ["Rinse it"], "environmental_impact": {"co2_saved_kg": 9.9}}'',
                PDict [(''item_name'', PStr ''Can''), (''category'', PStr ''Metal & Glass''),
                       (''confidence'', PFloat (Fin 0.95)),
                       (''disposal_steps'', PList [PStr ''Rinse it'']),
                       (''environmental_impact'', PDict [(''co2_saved_kg'', PFloat (Fin 9.9))])])] [])
           default_settings
           ''{"item_name": "Can", "category": "Metal & Glass", "confidence": 0.95, "disposal_steps": ["Rinse it"], "environmental_impact": {"co2_saved_kg": 9.9}}'')
        ''examples''
       = Inr (PList [PStr ''Aluminum cans'', PStr ''Steel cans'', PStr ''Glass bottles''])\<close>
proof -
  let ?txt = \<open>''{"item_name": "Can", "category": "Metal & Glass", "confidence": 0.95, "disposal_steps": ["Rinse it"], "environmental_impact": {"co2_saved_kg": 9.9}}''\<close>
  let ?e = "[(''co2_saved_kg'', PFloat (Fin 9.9))]"
  let ?d = "[(''item_name'', PStr ''Can''), (''category'', PStr ''Metal & Glass''),
             (''confidence'', PFloat (Fin 0.95)),
             (''disposal_steps'', PList [PStr ''Rinse it'']),
             (''environmental_impact'', PDict ?e)]"
  let ?L = "table_stdlib [(?txt, PDict ?d)] []"
  have ex: "extract_json_text ?txt = ?txt" by code_simp
  have l: "json_loads ?L (extract_json_text ?txt) = Some (PDict ?d)"
    unfolding ex by (simp add: table_stdlib_def)
  have i: "map_of ?d ''item_name'' \<noteq> None" by simp
  have c: "map_of ?d ''category'' = Some (PStr ''Metal & Glass'')" by simp
  have k: "map_of ?d ''confidence'' = Some (PFloat (Fin 0.95))" by simp
  have f: "py_float ?L (PFloat (Fin 0.95)) = Inr (Fin 0.95)" by simp
  have ei: "map_of ?d ''environmental_impact'' = Some (PDict ?e)" by simp
  then have h: "map_of ?d ''environmental_impact'' = None \<and> ?e = []
                \<or> map_of ?d ''environmental_impact'' = Some (PDict ?e)" ..
  have ds: "map_of ?d ''disposal_steps'' = Some (PList [PStr ''Rinse it''])" by simp
  have bc: "map_of ?d ''bin_color'' = None" by simp
  note t = backfill_only_missing [OF l i c guide_metal_glass k f, THEN conjunct1, THEN mp,
      OF h]
  from t obtain r where
    p: "parse_gemini_response ?L default_settings ?txt = PDict r"
    and c1: "map_of r ''disposal_steps'' =
               Some (case map_of ?d ''disposal_steps'' of
                       None \<Rightarrow> PList (map PStr [''Rinse containers clean'',
                           ''Remove lids and caps'', ''Can mix metals and glass'',
                           ''Place in blue recycling bin''])
                     | Some v \<Rightarrow> if truthy v then v
                         else PList (map PStr [''Rinse containers clean'',
                           ''Remove lids and caps'', ''Can mix metals and glass'',
                           ''Place in blue recycling bin'']))"
    and c2: "map_of r ''bin_color'' =
               Some (case map_of ?d ''bin_color'' of None \<Rightarrow> PStr ''BLUE'' | Some v \<Rightarrow> v)"
    and c8: "map_of r ''examples'' =
               Some (PList (map PStr [''Aluminum cans'', ''Steel cans'', ''Glass bottles'']))"
    unfolding guide.simps by (elim conjE exE)
  have g1: "py_getitem (parse_gemini_response ?L default_settings ?txt) ''disposal_steps''
              = Inr (PList [PStr ''Rinse it''])"
    unfolding p py_getitem.simps c1 ds by simp
  have g2: "py_getitem (parse_gemini_response ?L default_settings ?txt) ''bin_color''
              = Inr (PStr ''BLUE'')"
    unfolding p py_getitem.simps c2 bc by simp
  have g3: "py_getitem (parse_gemini_response ?L default_settings ?txt) ''examples''
              = Inr (PList [PStr ''Aluminum cans'', PStr ''Steel cans'', PStr ''Glass bottles''])"
    unfolding p py_getitem.simps c8 by simp
  from l g1 g2 g3 show ?thesis by (intro conjI)
qed

subsection \<open>Request validation\<close>

text \<open>
  Claim C10. An \<open>image_base64\<close> shorter than 100 characters (the empty string included)
  fails the validator of the request model with \<^verbatim>\<open>ValueError\<close>, and the request ends
  with that validation error whatever the base64 decoder would do with the string: the
  decoder is not consulted, also when the string is valid base64.
\<close>

theorem short_base64_rejected:
  assumes "length v < 100"
  shows "validate_base64 v = Inl ValueError
       \<and> (\<forall>b64decode. scan_base64_decode b64decode v
              = Inl (RequestValidationError ValueError))"
  using assms by (simp add: validate_base64_def scan_base64_decode_def)

theorem short_base64_rejected_witness:
  "length ''aGVsbG8='' < 100
   \<and> validate_base64 ''aGVsbG8='' = Inl ValueError
   \<and> scan_base64_decode (\<lambda>s. Some [0x68, 0x65, 0x6C, 0x6C, 0x6F]) ''aGVsbG8=''
       = Inl (RequestValidationError ValueError)"
proof -
  have h: "length ''aGVsbG8='' < 100" by simp
  from short_base64_rejected [OF h] have
    "validate_base64 ''aGVsbG8='' = Inl ValueError"
    "scan_base64_decode (\<lambda>s. Some [0x68, 0x65, 0x6C, 0x6C, 0x6F]) ''aGVsbG8=''
       = Inl (RequestValidationError ValueError)"
    by (simp_all only:)
  with h show ?thesis by (intro conjI)
qed

text \<open>
  Claim C8. For a non-negative configured maximum, a 0-byte file is rejected as empty
  (by \<open>validate_image\<close> with "File is empty", by the route with "Empty file uploaded").
  A file longer than the configured maximum is rejected with the message that carries
  the maximum in MB. A non-empty file within the maximum whose sniffed MIME type is
  allowed and whose decoded dimensions are between 50 and 4096 passes under every
  filename: the extension is not looked at.
\<close>

theorem upload_validation:
  "(0 \<le> MAX_UPLOAD_SIZE cfg \<longrightarrow>
      validate_image cfg ext [] filename = (False, Some FileEmpty)
      \<and> (prefix ''image/'' content_type \<longrightarrow>
           scan_upload_checks cfg ext (Some content_type) [] filename
             = Inl (HTTPException 400 (Msg ''Empty file uploaded''))))
   \<and> (int (length file_data) > MAX_UPLOAD_SIZE cfg \<longrightarrow>
        validate_image cfg ext file_data filename
          = (False, Some (FileTooLarge (of_int (MAX_UPLOAD_SIZE cfg) / (1024 * 1024))))
        \<and> (file_data \<noteq> [] \<and> prefix ''image/'' content_type \<longrightarrow>
             scan_upload_checks cfg ext (Some content_type) file_data filename
               = Inl (HTTPException 400
                   (Validation (FileTooLarge (of_int (MAX_UPLOAD_SIZE cfg) / (1024 * 1024)))))))
   \<and> (file_data \<noteq> [] \<and> int (length file_data) \<le> MAX_UPLOAD_SIZE cfg
        \<and> magic_from_buffer ext file_data = Some mime
        \<and> mime \<in> set (ALLOWED_IMAGE_TYPES cfg)
        \<and> image_size ext file_data = Some (width, height)
        \<and> 50 \<le> width \<and> width \<le> 4096 \<and> 50 \<le> height \<and> height \<le> 4096 \<longrightarrow>
        (\<forall>name. validate_image cfg ext file_data name = (True, None)
           \<and> (prefix ''image/'' content_type \<longrightarrow>
                scan_upload_checks cfg ext (Some content_type) file_data name = Inr ())))"
proof (intro conjI impI allI)
  assume "0 \<le> MAX_UPLOAD_SIZE cfg"
  then show e: "validate_image cfg ext [] filename = (False, Some FileEmpty)"
    by (simp add: validate_image_def)
  assume "prefix ''image/'' content_type"
  then show "scan_upload_checks cfg ext (Some content_type) [] filename
             = Inl (HTTPException 400 (Msg ''Empty file uploaded''))"
    by (auto simp: scan_upload_checks_def)
next
  assume big: "int (length file_data) > MAX_UPLOAD_SIZE cfg"
  then show v: "validate_image cfg ext file_data filename
          = (False, Some (FileTooLarge (of_int (MAX_UPLOAD_SIZE cfg) / (1024 * 1024))))"
    by (simp add: validate_image_def)
  assume "file_data \<noteq> [] \<and> prefix ''image/'' content_type"
  then show "scan_upload_checks cfg ext (Some content_type) file_data filename
               = Inl (HTTPException 400
                   (Validation (FileTooLarge (of_int (MAX_UPLOAD_SIZE cfg) / (1024 * 1024)))))"
    using v by (auto simp: scan_upload_checks_def)
next
  fix name
  assume a: "file_data \<noteq> [] \<and> int (length file_data) \<le> MAX_UPLOAD_SIZE cfg
        \<and> magic_from_buffer ext file_data = Some mime
        \<and> mime \<in> set (ALLOWED_IMAGE_TYPES cfg)
        \<and> image_size ext file_data = Some (width, height)
        \<and> 50 \<le> width \<and> width \<le> 4096 \<and> 50 \<le> height \<and> height \<le> 4096"
  then have m: "mime_check cfg ext file_data name = None"
    by (simp add: mime_check_def)
  with a show v: "validate_image cfg ext file_data name = (True, None)"
    by (simp add: validate_image_def max_dimension_def)
  assume "prefix ''image/'' content_type"
  with a v show "scan_upload_checks cfg ext (Some content_type) file_data name = Inr ()"
    by (auto simp: scan_upload_checks_def)
qed

theorem upload_validation_witness:
  "validate_image default_settings
     \<lparr>magic_from_buffer = (\<lambda>b. Some ''image/png''), image_size = (\<lambda>b. Some (3000, 3000)),
      path_suffix_lower = (\<lambda>n. ''.txt'')\<rparr> [] ''photo.txt'' = (False, Some FileEmpty)
   \<and> validate_image default_settings
     \<lparr>magic_from_buffer = (\<lambda>b. Some ''image/png''), image_size = (\<lambda>b. Some (3000, 3000)),
      path_suffix_lower = (\<lambda>n. ''.txt'')\<rparr> (replicate 10485761 0) ''photo.txt''
       = (False, Some (FileTooLarge 10))
   \<and> validate_image default_settings
     \<lparr>magic_from_buffer = (\<lambda>b. Some ''image/png''), image_size = (\<lambda>b. Some (3000, 3000)),
      path_suffix_lower = (\<lambda>n. ''.txt'')\<rparr>
     [0x89, 0x50, 0x4E, 0x47, 0x0D, 0x0A, 0x1A, 0x0A] ''photo.txt'' = (True, None)
   \<and> scan_upload_checks default_settings
     \<lparr>magic_from_buffer = (\<lambda>b. Some ''image/png''), image_size = (\<lambda>b. Some (3000, 3000)),
      path_suffix_lower = (\<lambda>n. ''.txt'')\<rparr> (Some ''image/png'')
     [0x89, 0x50, 0x4E, 0x47, 0x0D, 0x0A, 0x1A, 0x0A] ''photo.txt'' = Inr ()"
proof -
  let ?ext = "\<lparr>magic_from_buffer = (\<lambda>b. Some ''image/png''),
               image_size = (\<lambda>b. Some (3000, 3000)),
               path_suffix_lower = (\<lambda>n. ''.txt'')\<rparr>"
  let ?png = "[0x89, 0x50, 0x4E, 0x47, 0x0D, 0x0A, 0x1A, 0x0A] :: bytes"
  have a: "0 \<le> MAX_UPLOAD_SIZE default_settings" by (simp add: default_max_upload)
  have b: "int (length (replicate 10485761 (0 :: 8 word))) > MAX_UPLOAD_SIZE default_settings"
    by (simp add: default_max_upload)
  have c: "?png \<noteq> [] \<and> int (length ?png) \<le> MAX_UPLOAD_SIZE default_settings
        \<and> magic_from_buffer ?ext ?png = Some ''image/png''
        \<and> ''image/png'' \<in> set (ALLOWED_IMAGE_TYPES default_settings)
        \<and> image_size ?ext ?png = Some (3000, 3000)
        \<and> (50 :: int) \<le> 3000 \<and> (3000 :: int) \<le> 4096 \<and> (50 :: int) \<le> 3000 \<and> (3000 :: int) \<le> 4096"
    by (simp add: default_max_upload default_image_types)
  have p: "prefix ''image/'' ''image/png''" by simp
  note t1 = upload_validation [where cfg = default_settings and ext = ?ext
      and filename = "''photo.txt''", THEN conjunct1, THEN mp, OF a, THEN conjunct1]
  note t2 = upload_validation [where cfg = default_settings and ext = ?ext
      and filename = "''photo.txt''" and file_data = "replicate 10485761 0",
      THEN conjunct2, THEN conjunct1, THEN mp, OF b, THEN conjunct1]
  note t3 = upload_validation [where cfg = default_settings and ext = ?ext
      and file_data = ?png and mime = "''image/png''" and width = 3000 and height = 3000
      and content_type = "''image/png''",
      THEN conjunct2, THEN conjunct2, THEN mp, OF c, THEN spec, of "''photo.txt''"]
  have t2': "validate_image default_settings ?ext (replicate 10485761 0) ''photo.txt''
       = (False, Some (FileTooLarge 10))"
    using t2 by (simp add: default_max_upload)
  from t1 t2' t3 [THEN conjunct1] t3 [THEN conjunct2, THEN mp, OF p]
  show ?thesis by (intro conjI)
qed

subsection \<open>Fence markers\<close>

text \<open>
  Claim C6, amended. For every object text \<open>j\<close> (it starts with an opening and ends with
  a closing brace) that contains no fence marker, the reconciler gives the same result
  for \<open>j\<close> between a \<^verbatim>\<open>```json\<close> or \<^verbatim>\<open>```\<close> marker and a closing marker, padded with
  any white space, as for \<open>j\<close> itself: the stripping step extracts exactly \<open>j\<close>.
\<close>

theorem fenced_same_as_unwrapped:
  assumes "j \<noteq> []" and "hd j = CHR ''{''" and "last j = CHR ''}''"
    and "\<not> str_contains ''```'' j"
    and "\<forall>c \<in> set ws1. py_isspace c" and "\<forall>c \<in> set ws2. py_isspace c"
  shows "parse_gemini_response L cfg (''```json'' @ ws1 @ j @ ws2 @ ''```'')
           = parse_gemini_response L cfg j
       \<and> parse_gemini_response L cfg (''```'' @ ws1 @ j @ ws2 @ ''```'')
           = parse_gemini_response L cfg j"
proof -
  let ?m = "ws1 @ j @ ws2"
  from assms(4) have nf: "find_at ''```'' j = None" by (simp add: str_contains_def)
  have f: "find_at ''```'' (?m @ ''```'') = Some (length ?m)"
    using nf assms(1,3,5,6) by (rule find_closing_fence)
  have st: "py_strip ?m = j"
    using assms(1,2,3,5,6) by (intro py_strip_padded) (simp_all add: not_space_brace)
  have ne: "?m \<noteq> []" using assms(1) by simp
  have hd: "hd ?m \<noteq> CHR ''`'' \<and> hd ?m \<noteq> CHR ''j''"
  proof (cases ws1)
    case Nil
    with assms(1,2) show ?thesis by simp
  next
    case (Cons w ws)
    with assms(5) have "py_isspace (hd ?m)" by simp
    then show ?thesis by (auto simp: py_isspace_def)
  qed
  have e0: "extract_json_text j = j" using nf by (rule extract_unfenced)
  have e1: "extract_json_text (''```json'' @ ?m @ ''```'') = j"
    using extract_json_fence [OF f] st by simp
  have e2: "extract_json_text (''```'' @ ?m @ ''```'') = j"
    using extract_plain_fence [OF f ne] hd st by simp
  from e1 have e1': "extract_json_text (''```json'' @ ws1 @ j @ ws2 @ ''```'') = j" by simp
  from e2 have e2': "extract_json_text (''```'' @ ws1 @ j @ ws2 @ ''```'') = j" by simp
  show ?thesis
    unfolding parse_gemini_response_def e0 e1' e2' by simp
qed

theorem fenced_same_as_unwrapped_witness:
  \<open>\<not> str_contains ''```'' ''{"item_name": "Cup", "category": "Plastic", "confidence": 0.8}''
   \<and> py_isspace (CHR 0x0A)
   \<and> parse_gemini_response
        (table_stdlib
           [(''{"item_name": "Cup", "category": "Plastic", "confidence": 0.8}'',
             PDict [(''item_name'', PStr ''Cup''), (''category'', PStr ''Plastic''),
                    (''confidence'', PFloat (Fin 0.8))])] [])
        default_settings
        (''```json'' @ [CHR 0x0A]
           @ ''{"item_name": "Cup", "category": "Plastic", "confidence": 0.8}''
           @ [CHR 0x0A] @ ''```'')
     = parse_gemini_response
        (table_stdlib
           [(''{"item_name": "Cup", "category": "Plastic", "confidence": 0.8}'',
             PDict [(''item_name'', PStr ''Cup''), (''category'', PStr ''Plastic''),
                    (''confidence'', PFloat (Fin 0.8))])] [])
        default_settings
        ''{"item_name": "Cup", "category": "Plastic", "confidence": 0.8}''\<close>
proof -
  let ?j = \<open>''{"item_name": "Cup", "category": "Plastic", "confidence": 0.8}''\<close>
  have a: "?j \<noteq> []" by simp
  have b: "hd ?j = CHR ''{''" by simp
  have c: "last ?j = CHR ''}''" by simp
  have d: "\<not> str_contains ''```'' ?j" by code_simp
  have w: "\<forall>c \<in> set [CHR 0x0A]. py_isspace c" by (simp add: py_isspace_def)
  have n: "py_isspace (CHR 0x0A)" by (simp add: py_isspace_def)
  note t = fenced_same_as_unwrapped [OF a b c d w w, THEN conjunct1]
  from d n t show ?thesis by (intro conjI)
qed

text \<open>
  Claim C6, as stated, at a concrete input: the object text has the item name
  \<^verbatim>\<open>a```b\<close>. Wrapped in \<^verbatim>\<open>```json\<close> and \<^verbatim>\<open>```\<close> the stripping step ends at the marker
  inside the item name and the fallback keeps the text before it; unwrapped, the
  \<^verbatim>\<open>elif\<close> branch starts after that marker, finds no closing one (index \<open>-1\<close> drops the
  last character) and the fallback keeps the text after it. The two results differ, and
  neither is the reconciled object.
\<close>

theorem fence_inside_counterexample:
  \<open>json_loads
      (table_stdlib
         [(''{"item_name": "a```b", "category": "Unknown", "confidence": 0.5}'',
           PDict [(''item_name'', PStr ''a```b''), (''category'', PStr ''Unknown''),
                  (''confidence'', PFloat (Fin 0.5))])] [])
      ''{"item_name": "a```b", "category": "Unknown", "confidence": 0.5}''
     = Some (PDict [(''item_name'', PStr ''a```b''), (''category'', PStr ''Unknown''),
                    (''confidence'', PFloat (Fin 0.5))])
   \<and> parse_gemini_response
        (table_stdlib
           [(''{"item_name": "a```b", "category": "Unknown", "confidence": 0.5}'',
             PDict [(''item_name'', PStr ''a```b''), (''category'', PStr ''Unknown''),
                    (''confidence'', PFloat (Fin 0.5))])] [])
        default_settings
        (''```json'' @ [CHR 0x0A]
           @ ''{"item_name": "a```b", "category": "Unknown", "confidence": 0.5}''
           @ [CHR 0x0A] @ ''```'')
     = create_fallback_response ''{"item_name": "a''
   \<and> parse_gemini_response
        (table_stdlib
           [(''{"item_name": "a```b", "category": "Unknown", "confidence": 0.5}'',
             PDict [(''item_name'', PStr ''a```b''), (''category'', PStr ''Unknown''),
                    (''confidence'', PFloat (Fin 0.5))])] [])
        default_settings
        ''{"item_name": "a```b", "category": "Unknown", "confidence": 0.5}''
     = create_fallback_response ''b", "category": "Unknown", "confidence": 0.5''
   \<and> parse_gemini_response
        (table_stdlib
           [(''{"item_name": "a```b", "category": "Unknown", "confidence": 0.5}'',
             PDict [(''item_name'', PStr ''a```b''), (''category'', PStr ''Unknown''),
                    (''confidence'', PFloat (Fin 0.5))])] [])
        default_settings
        (''```json'' @ [CHR 0x0A]
           @ ''{"item_name": "a```b", "category": "Unknown", "confidence": 0.5}''
           @ [CHR 0x0A] @ ''```'')
     \<noteq> parse_gemini_response
        (table_stdlib
           [(''{"item_name": "a```b", "category": "Unknown", "confidence": 0.5}'',
             PDict [(''item_name'', PStr ''a```b''), (''category'', PStr ''Unknown''),
                    (''confidence'', PFloat (Fin 0.5))])] [])
        default_settings
        ''{"item_name": "a```b", "category": "Unknown", "confidence": 0.5}''\<close>
proof -
  let ?j = \<open>''{"item_name": "a```b", "category": "Unknown", "confidence": 0.5}''\<close>
  let ?w = "''```json'' @ [CHR 0x0A] @ ?j @ [CHR 0x0A] @ ''```''"
  let ?d = "[(''item_name'', PStr ''a```b''), (''category'', PStr ''Unknown''),
             (''confidence'', PFloat (Fin 0.5))]"
  let ?L = "table_stdlib [(?j, PDict ?d)] []"
  let ?a = \<open>''{"item_name": "a''\<close>
  let ?b = \<open>''b", "category": "Unknown", "confidence": 0.5''\<close>
  have l: "json_loads ?L ?j = Some (PDict ?d)" by (simp add: table_stdlib_def)
  have ew: "extract_json_text ?w = ?a" by code_simp
  have ej: "extract_json_text ?j = ?b" by code_simp
  have la: "json_loads ?L ?a = None" by (simp add: table_stdlib_def)
  have lb: "json_loads ?L ?b = None" by (simp add: table_stdlib_def)
  have rw: "reconcile ?L default_settings (extract_json_text ?w) = Inl JSONDecodeError"
    unfolding ew by (rule reconcile_no_json [OF la])
  have rj: "reconcile ?L default_settings (extract_json_text ?j) = Inl JSONDecodeError"
    unfolding ej by (rule reconcile_no_json [OF lb])
  have pw: "parse_gemini_response ?L default_settings ?w = create_fallback_response ?a"
    using parse_fallback [OF rw] unfolding ew .
  have pj: "parse_gemini_response ?L default_settings ?j = create_fallback_response ?b"
    using parse_fallback [OF rj] unfolding ej .
  have sa: "py_slice ?a 0 500 = ?a" by code_simp
  have sb: "py_slice ?b 0 500 = ?b" by code_simp
  have ne: "create_fallback_response ?a \<noteq> create_fallback_response ?b"
  proof
    assume "create_fallback_response ?a = create_fallback_response ?b"
    then have "py_getitem (create_fallback_response ?a) ''raw_ai_response''
             = py_getitem (create_fallback_response ?b) ''raw_ai_response''"
      by (rule arg_cong)
    then have "?a = ?b" unfolding fallback_raw sa sb by (simp only: sum.inject pyval.inject)
    then show False by simp
  qed
  from l pw pj ne show ?thesis by (simp only:) simp
qed

subsection \<open>The fallback result\<close>

text \<open>
  Claim C1 at a concrete input: fenced text that is not JSON. The result is the fallback,
  but its \<open>raw_ai_response\<close> is the text between the markers ("not json"), not the first
  500 characters of the raw text, which here are the whole raw text with its markers:
  the \<^verbatim>\<open>except\<close> clauses pass \<^verbatim>\<open>response_text\<close> after the \<^verbatim>\<open>try\<close> block has
  overwritten it.
\<close>

theorem fallback_keeps_stripped_text:
  "parse_gemini_response (table_stdlib [] []) default_settings
     (''```json'' @ [CHR 0x0A] @ ''not json'' @ [CHR 0x0A] @ ''```'')
     = create_fallback_response ''not json''
   \<and> py_getitem
        (parse_gemini_response (table_stdlib [] []) default_settings
           (''```json'' @ [CHR 0x0A] @ ''not json'' @ [CHR 0x0A] @ ''```''))
        ''raw_ai_response'' = Inr (PStr ''not json'')
   \<and> py_slice (''```json'' @ [CHR 0x0A] @ ''not json'' @ [CHR 0x0A] @ ''```'') 0 500
     = ''```json'' @ [CHR 0x0A] @ ''not json'' @ [CHR 0x0A] @ ''```''"
proof -
  let ?w = "''```json'' @ [CHR 0x0A] @ ''not json'' @ [CHR 0x0A] @ ''```''"
  let ?L = "table_stdlib [] []"
  have ew: "extract_json_text ?w = ''not json''" by code_simp
  have la: "json_loads ?L ''not json'' = None" by (simp add: table_stdlib_def)
  have rw: "reconcile ?L default_settings (extract_json_text ?w) = Inl JSONDecodeError"
    unfolding ew by (rule reconcile_no_json [OF la])
  have pw: "parse_gemini_response ?L default_settings ?w = create_fallback_response ''not json''"
    using parse_fallback [OF rw] unfolding ew .
  have s1: "py_slice ''not json'' 0 500 = ''not json''" by code_simp
  have s2: "py_slice ?w 0 500 = ?w" by code_simp
  have g: "py_getitem (parse_gemini_response ?L default_settings ?w) ''raw_ai_response''
             = Inr (PStr ''not json'')"
    unfolding pw fallback_raw s1 ..
  from pw g s2 show ?thesis by (intro conjI)
qed

end
